theory Spec2Isabelle
  imports Main "HOL-Library.Word"
begin

section \<open>JavaScript values the server handles\<close>

text \<open>
  A JavaScript string is a sequence of UTF-16 code units.  The string literals of the
  source are ASCII; \<open>js\<close> turns an Isabelle literal into such a sequence.
\<close>

type_synonym jschar = "16 word"
type_synonym jsstring = "jschar list"

definition js :: "string \<Rightarrow> jsstring" where
  "js s = map (\<lambda>c. of_nat (of_char c)) s"

text \<open>
  \<open>String.prototype.trim\<close> removes white space and line terminators from both ends:
  TAB, LF, VT, FF, CR, SP, NBSP, U+1680, U+2000..U+200A, U+2028, U+2029, U+202F, U+205F,
  U+3000 and U+FEFF.
\<close>

definition isWhiteSpace :: "jschar \<Rightarrow> bool" where
  "isWhiteSpace c =
     (c = 0x09 \<or> c = 0x0A \<or> c = 0x0B \<or> c = 0x0C \<or> c = 0x0D \<or> c = 0x20 \<or> c = 0xA0 \<or>
      c = 0x1680 \<or> (0x2000 \<le> c \<and> c \<le> 0x200A) \<or> c = 0x2028 \<or> c = 0x2029 \<or>
      c = 0x202F \<or> c = 0x205F \<or> c = 0x3000 \<or> c = 0xFEFF)"

definition trim :: "jsstring \<Rightarrow> jsstring" where
  "trim t = rev (dropWhile isWhiteSpace (rev (dropWhile isWhiteSpace t)))"

text \<open>
  The values \<open>JSON.parse\<close> returns.  A number is carried as the text that
  \<open>Number.prototype.toString\<close> gives for it: the server never computes with a number
  of a message, it only uses one as a property key.  An object is the list of its own
  properties.  \<open>undefined\<close> (a missing property) is \<open>None\<close> of \<open>json option\<close>.
\<close>

datatype json =
    JNull
  | JBool bool
  | JNum jsstring
  | JStr jsstring
  | JArr "json list"
  | JObj "(jsstring \<times> json) list"

datatype exn =
    SyntaxError    \<comment> \<open>\<open>JSON.parse\<close> on a text that is not JSON\<close>
  | TypeError      \<comment> \<open>a property read on \<open>null\<close> or \<open>undefined\<close>\<close>
  | NotOpenError   \<comment> \<open>\<open>ws.send\<close> on a socket that is not open\<close>

text \<open>
  An inbound frame, by what \<open>JSON.parse(message)\<close> does with it: it throws a
  \<open>SyntaxError\<close>, or it returns a value.
\<close>

datatype frame = Malformed | Wellformed json

definition JSON_parse :: "frame \<Rightarrow> exn + json" where
  "JSON_parse message = (case message of Malformed \<Rightarrow> Inl SyntaxError | Wellformed v \<Rightarrow> Inr v)"

text \<open>
  \<open>data.p\<close> for one of the names \<open>type\<close>, \<open>language\<close>, \<open>audio\<close>: a \<open>TypeError\<close> on
  \<open>null\<close>, the own property of an object, and \<open>undefined\<close> on every other value
  (no prototype has a property of one of these names).
\<close>

definition getProperty :: "json \<Rightarrow> jsstring \<Rightarrow> exn + json option" where
  "getProperty data p =
     (case data of
        JNull \<Rightarrow> Inl TypeError
      | JObj props \<Rightarrow> Inr (map_of props p)
      | _ \<Rightarrow> Inr None)"

text \<open>
  \<open>ToString\<close>, which turns a value used in \<open>obj[value]\<close> into the property key.
  \<open>Array.prototype.join\<close> writes \<open>null\<close> as the empty string.  An object is
  converted by its \<open>toString\<close>: the one of \<open>Object.prototype\<close> gives \<open>[object Object]\<close>,
  but an own property \<open>toString\<close> hides it, and as no value of a JSON text can be
  called (and \<open>valueOf\<close> does not give a primitive either) the conversion then throws a
  \<open>TypeError\<close>.
\<close>

fun joinComma :: "jsstring list \<Rightarrow> jsstring" where
  "joinComma [] = []"
| "joinComma [x] = x"
| "joinComma (x # y # ys) = x @ js '','' @ joinComma (y # ys)"

text \<open>The results of a list of conversions, or the first exception among them.\<close>

fun allOrThrow :: "(exn + 'a) list \<Rightarrow> exn + 'a list" where
  "allOrThrow [] = Inr []"
| "allOrThrow (Inl e # _) = Inl e"
| "allOrThrow (Inr x # rs) = (case allOrThrow rs of Inl e \<Rightarrow> Inl e | Inr xs \<Rightarrow> Inr (x # xs))"

fun ToString :: "json \<Rightarrow> exn + jsstring" where
  "ToString JNull = Inr (js ''null'')"
| "ToString (JBool b) = Inr (if b then js ''true'' else js ''false'')"
| "ToString (JNum t) = Inr t"
| "ToString (JStr s) = Inr s"
| "ToString (JArr xs) =
     (case allOrThrow (map (\<lambda>x. if x = JNull then Inr [] else ToString x) xs) of
        Inl e \<Rightarrow> Inl e
      | Inr texts \<Rightarrow> Inr (joinComma texts))"
| "ToString (JObj props) =
     (if map_of props (js ''toString'') \<noteq> None then Inl TypeError
      else Inr (js ''[object Object]''))"

definition ToPropertyKey :: "json option \<Rightarrow> exn + jsstring" where
  "ToPropertyKey v = (case v of None \<Rightarrow> Inr (js ''undefined'') | Some x \<Rightarrow> ToString x)"

section \<open>The table of languages\<close>

text \<open>
  What a property read on the object literal \<open>supportedLanguages\<close> can give: one of its
  four labels, \<open>undefined\<close>, or a property inherited from \<open>Object.prototype\<close> (the literal
  is a plain object): a built-in function, or, for \<open>__proto__\<close>, the prototype object.
\<close>

datatype lookup =
    Undefined
  | Label jsstring
  | BuiltinFunction
  | PrototypeObject

definition supportedLanguages :: "(jsstring \<times> jsstring) list" where
  "supportedLanguages =
     [(js ''ja'', js ''Japanese''),
      (js ''ko'', js ''Korean''),
      (js ''ZH-HANT'', js ''Chinese (Traditional)''),
      (js ''es'', js ''Spanish'')]"

definition Object_prototype_functions :: "jsstring list" where
  "Object_prototype_functions =
     [js ''constructor'', js ''hasOwnProperty'', js ''isPrototypeOf'',
      js ''propertyIsEnumerable'', js ''toLocaleString'', js ''toString'', js ''valueOf'',
      js ''__defineGetter__'', js ''__defineSetter__'', js ''__lookupGetter__'',
      js ''__lookupSetter__'']"

text \<open>\<open>supportedLanguages[key]\<close> for a property key.\<close>

definition supportedLanguages_at :: "jsstring \<Rightarrow> lookup" where
  "supportedLanguages_at key =
     (case map_of supportedLanguages key of
        Some label \<Rightarrow> Label label
      | None \<Rightarrow>
          if key \<in> set Object_prototype_functions then BuiltinFunction
          else if key = js ''__proto__'' then PrototypeObject
          else Undefined)"

text \<open>\<open>supportedLanguages[code]\<close>: the conversion of \<open>code\<close> to a key may throw.\<close>

definition supportedLanguages_get :: "json option \<Rightarrow> exn + lookup" where
  "supportedLanguages_get code =
     (case ToPropertyKey code of
        Inl e \<Rightarrow> Inl e
      | Inr key \<Rightarrow> Inr (supportedLanguages_at key))"

text \<open>
  \<open>JSON.stringify\<close> leaves a property out when its value is \<open>undefined\<close> or a function;
  \<open>Object.prototype\<close> has no enumerable property and is written \<open>{}\<close>.
\<close>

definition stringifyField :: "lookup \<Rightarrow> json option" where
  "stringifyField v =
     (case v of
        Undefined \<Rightarrow> None
      | Label l \<Rightarrow> Some (JStr l)
      | BuiltinFunction \<Rightarrow> None
      | PrototypeObject \<Rightarrow> Some (JObj []))"

section \<open>The session of one client\<close>

datatype readyState = CONNECTING | OPEN | CLOSING | CLOSED

text \<open>
  A \<open>Results\<close> message of the transcription service, by the transcripts of
  \<open>data.channel.alternatives\<close>.
\<close>

datatype dgdata = Results "jsstring list"

text \<open>What \<open>deepgramConnection.send\<close> is given: a buffer of the microphone, or \<open>data.audio\<close>.\<close>

datatype payload = FromMic "8 word list" | FromClient "json option"

text \<open>The error a \<open>catch\<close> receives: a rejected promise's reason, or an exception.\<close>

datatype caught = Rejected jsstring | Thrown exn

text \<open>
  The texts of the \<open>debug\<close> messages, one constructor for each template of the source,
  with the values the template interpolates.
\<close>

datatype debugText =
    NewConnectionEstablished
  | CreatingDeepgramConnection
  | DeepgramConnectionOpened
  | RawTranscriptData dgdata
  | ExtractedTranscript jsstring
  | ReceivedNonEmptyTranscript jsstring
  | TranslatedText jsstring
  | TranslationErrorText caught
  | ReceivedEmptyTranscript
  | DeepgramErrorText jsstring
  | DeepgramConnectionClosed
  | AttemptingToReconnect
  | UnhandledDeepgramErrorText jsstring
  | SentTotalBytes "nat option"
  | MicDataButNotOpen "readyState option" bool
  | MicrophoneErrorText jsstring
  | MicrophoneStarted
  | LanguageSetTo lookup
  | ClientIsMuted
  | ClientIsUnmuted
  | WebSocketConnectionClosed
  | MicrophoneStopped
  | DeepgramConnectionFinished
  | WebSocketErrorText jsstring

text \<open>
  The messages of the server to the client, as the client reads them after
  \<open>JSON.stringify\<close>: \<open>{type, data}\<close>, where the data of a \<open>transcript\<close> is
  \<open>{original, translated, language}\<close> and \<open>language\<close> may be missing.
\<close>

datatype client_event =
    Debug debugText
  | Status jsstring
  | Error jsstring
  | Transcript jsstring jsstring "json option"

datatype consoleEntry =
    LogNewWebSocketConnection
  | LogCreatingDeepgramConnection
  | LogWebSocketClosedClosingDeepgram
  | LogDeepgramConnectionOpened
  | ErrTranslation caught
  | ErrDeepgram jsstring
  | LogDeepgramConnectionClosed
  | ErrUnhandledDeepgram jsstring
  | ErrMicrophone jsstring
  | LogWebSocketConnectionClosed
  | ErrWebSocket jsstring
  | ErrUnhandledRejection exn
  | ErrUncaughtException exn

text \<open>
  The objects of the libraries, by what the server does with them.  A live connection has
  the ready state of its socket (which only the service and the network change), the
  number of \<open>Transcript\<close> listeners added to it, what has been sent on it and how often
  \<open>finish\<close> has been called.  The \<open>Open\<close>, \<open>Error\<close>, \<open>Close\<close> and \<open>'error'\<close> listeners are
  added to every connection when it is created.  A microphone has the numbers of its
  \<open>start\<close> and \<open>stop\<close> calls.  The calls into the libraries (\<open>listen.live\<close>, \<open>send\<close> on an
  open connection, \<open>finish\<close>, \<open>addListener\<close>, \<open>mic\<close>, \<open>start\<close>, \<open>stop\<close>) are taken to
  return; \<open>translateText\<close> returns a promise.
\<close>

record dgConnection =
  readyState :: readyState
  transcriptListeners :: nat
  sent :: "payload list"
  finishCalls :: nat

record microphone =
  startCalls :: nat
  stopCalls :: nat

text \<open>
  The variables of the closure of \<open>wss.on('connection')\<close>, under the names of the source,
  and the world around them: the client socket \<open>ws\<close>, the connections and microphones
  created so far (\<open>deepgramConnection\<close> and \<open>micInstance\<close> point into these), the pending
  timers with their delays, what the client has been sent, the console, the calls of
  \<open>translator.translateText\<close> and the transcripts whose translation is awaited.

  \<open>totalAudioBytesSent\<close> is \<open>Some n\<close> while the variable holds the integer \<open>n\<close>, which a
  JavaScript number holds exactly up to \<open>2^53 = 9007199254740992\<close>, and \<open>None\<close> once \<open>+=\<close> has made it
  anything else (\<open>NaN\<close>, a string, a number that is not such an integer), which is not
  followed further.  \<open>ws_sendThrows\<close> says what \<open>ws.send\<close> does on a closing or closed
  socket, which depends on the version of the \<open>ws\<close> library: it throws, or it drops the
  message.  \<open>ws_receiverStopped\<close> is set when an exception has left a \<open>'message'\<close>
  listener: the receiver of \<open>ws\<close> emits the event inside a write that the exception
  keeps from completing, so that it reads no later frame and, when the socket closes,
  never finishes, and the \<open>'close'\<close> event, which waits for that, is never emitted.
\<close>

record session =
  deepgramConnection :: "nat option"
  micInstance :: "nat option"
  isDeepgramConnected :: bool
  totalAudioBytesSent :: "nat option"
  lastAudioSentTimestamp :: int
  currentLanguage :: "json option"
  isReceivingAudio :: bool
  isMuted :: bool
  isWebSocketClosed :: bool
  ws_readyState :: readyState
  ws_sendThrows :: bool
  ws_receiverStopped :: bool
  connections :: "dgConnection list"
  microphones :: "microphone list"
  timers :: "nat list"
  received :: "client_event list"
  console :: "consoleEntry list"
  translateCalls :: "(jsstring \<times> json option) list"
  inFlight :: "jsstring list"

text \<open>How a handler ends: it returns, or it throws; the assignments made before stay.\<close>

datatype outcome = Returned session | Threw exn session

definition andThen :: "outcome \<Rightarrow> (session \<Rightarrow> outcome) \<Rightarrow> outcome" where
  "andThen r f = (case r of Returned s \<Rightarrow> f s | Threw e s \<Rightarrow> Threw e s)"

subsection \<open>The client socket and the console\<close>

definition console_log :: "consoleEntry \<Rightarrow> session \<Rightarrow> session" where
  "console_log entry s = s\<lparr>console := console s @ [entry]\<rparr>"

definition ws_send :: "client_event \<Rightarrow> session \<Rightarrow> outcome" where
  "ws_send m s =
     (if ws_readyState s = OPEN then Returned (s\<lparr>received := received s @ [m]\<rparr>)
      else if ws_readyState s = CONNECTING \<or> ws_sendThrows s then Threw NotOpenError s
      else Returned s)"

definition sendDebugToClient :: "debugText \<Rightarrow> session \<Rightarrow> session" where
  "sendDebugToClient message s =
     (if ws_readyState s = OPEN then s\<lparr>received := received s @ [Debug message]\<rparr> else s)"

subsection \<open>The upstream connection and the microphone\<close>

definition newConnection :: dgConnection where
  "newConnection = \<lparr>readyState = CONNECTING, transcriptListeners = 0, sent = [], finishCalls = 0\<rparr>"

definition newMicrophone :: microphone where
  "newMicrophone = \<lparr>startCalls = 0, stopCalls = 0\<rparr>"

definition updateConnection :: "nat \<Rightarrow> (dgConnection \<Rightarrow> dgConnection) \<Rightarrow> session \<Rightarrow> session" where
  "updateConnection c f s =
     (if c < length (connections s) then s\<lparr>connections := (connections s)[c := f (connections s ! c)]\<rparr>
      else s)"

definition updateMicrophone :: "nat \<Rightarrow> (microphone \<Rightarrow> microphone) \<Rightarrow> session \<Rightarrow> session" where
  "updateMicrophone m f s =
     (if m < length (microphones s) then s\<lparr>microphones := (microphones s)[m := f (microphones s ! m)]\<rparr>
      else s)"

text \<open>
  The object \<open>deepgramConnection\<close> refers to; \<open>None\<close> when the variable is \<open>undefined\<close>
  (a reference always points to a connection that was created).
\<close>

definition theConnection :: "session \<Rightarrow> (nat \<times> dgConnection) option" where
  "theConnection s =
     (case deepgramConnection s of
        None \<Rightarrow> None
      | Some c \<Rightarrow> if c < length (connections s) then Some (c, connections s ! c) else None)"

definition deepgram_finish :: "session \<Rightarrow> outcome" where
  "deepgram_finish s =
     (case theConnection s of
        None \<Rightarrow> Threw TypeError s
      | Some (c, _) \<Rightarrow> Returned (updateConnection c (\<lambda>d. d\<lparr>finishCalls := Suc (finishCalls d)\<rparr>) s))"

definition deepgram_send :: "payload \<Rightarrow> session \<Rightarrow> outcome" where
  "deepgram_send p s =
     (case theConnection s of
        None \<Rightarrow> Threw TypeError s
      | Some (c, _) \<Rightarrow> Returned (updateConnection c (\<lambda>d. d\<lparr>sent := sent d @ [p]\<rparr>) s))"

definition deepgram_addTranscriptListener :: "session \<Rightarrow> outcome" where
  "deepgram_addTranscriptListener s =
     (case theConnection s of
        None \<Rightarrow> Threw TypeError s
      | Some (c, _) \<Rightarrow>
          Returned (updateConnection c (\<lambda>d. d\<lparr>transcriptListeners := Suc (transcriptListeners d)\<rparr>) s))"

text \<open>\<open>isDeepgramConnected && deepgramConnection.getReadyState() === WebSocket.OPEN\<close>\<close>

definition connectedAndOpen :: "session \<Rightarrow> exn + bool" where
  "connectedAndOpen s =
     (if \<not> isDeepgramConnected s then Inr False
      else case theConnection s of
        None \<Rightarrow> Inl TypeError
      | Some (_, d) \<Rightarrow> Inr (readyState d = OPEN))"

section \<open>The handlers of \<open>wss.on('connection')\<close>\<close>

subsection \<open>\<open>setupDeepgram\<close> and \<open>setupMicrophone\<close>\<close>

definition setupDeepgram :: "session \<Rightarrow> session" where
  "setupDeepgram s =
     (if isDeepgramConnected s \<or> isWebSocketClosed s then s
      else
        let s1 = console_log LogCreatingDeepgramConnection s;
            s2 = sendDebugToClient CreatingDeepgramConnection s1
        in s2\<lparr>connections := connections s2 @ [newConnection],
               deepgramConnection := Some (length (connections s2))\<rparr>)"

definition setupMicrophone :: "session \<Rightarrow> session" where
  "setupMicrophone s =
     (let m = length (microphones s);
          s1 = s\<lparr>microphones := microphones s @ [newMicrophone], micInstance := Some m\<rparr>;
          s2 = updateMicrophone m (\<lambda>d. d\<lparr>startCalls := Suc (startCalls d)\<rparr>) s1
      in sendDebugToClient MicrophoneStarted s2)"

subsection \<open>The listeners of the upstream connection\<close>

text \<open>
  The \<open>Transcript\<close> listener is an \<open>async\<close> function.  \<open>onTranscript\<close> is its part up to
  the \<open>await\<close>: the call of \<open>translator.translateText(transcript, null, currentLanguage)\<close>
  is made, and the transcript waits in \<open>inFlight\<close> for the promise.  An exception in an
  \<open>async\<close> function rejects its promise, which nothing handles but
  \<open>process.on('unhandledRejection')\<close>.
\<close>

definition onTranscript :: "dgdata \<Rightarrow> session \<Rightarrow> session" where
  "onTranscript data s =
     (case data of
        Results [] \<Rightarrow> console_log (ErrUnhandledRejection TypeError) s
      | Results (transcript # _) \<Rightarrow>
          let s1 = sendDebugToClient (RawTranscriptData data) s;
              s2 = sendDebugToClient (ExtractedTranscript transcript) s1
          in
            if transcript \<noteq> [] \<and> trim transcript \<noteq> [] then
              let s3 = sendDebugToClient (ReceivedNonEmptyTranscript transcript) s2
              in s3\<lparr>translateCalls := translateCalls s3 @ [(transcript, currentLanguage s3)],
                     inFlight := inFlight s3 @ [transcript]\<rparr>
            else sendDebugToClient ReceivedEmptyTranscript s2)"

text \<open>The \<open>catch\<close> block of the listener.\<close>

definition catchTranslation :: "caught \<Rightarrow> session \<Rightarrow> session" where
  "catchTranslation error s =
     sendDebugToClient (TranslationErrorText error) (console_log (ErrTranslation error) s)"

text \<open>
  The rest of the \<open>try\<close> block, when the promise is fulfilled with \<open>result\<close>.  The message
  is built, with \<open>supportedLanguages[currentLanguage]\<close>, before \<open>ws.send\<close> is called; an
  exception of either goes to the \<open>catch\<close> block.
\<close>

definition onTranslated :: "jsstring \<Rightarrow> jsstring \<Rightarrow> session \<Rightarrow> session" where
  "onTranslated transcript result_text s =
     (let s1 = sendDebugToClient (TranslatedText result_text) s
      in case supportedLanguages_get (currentLanguage s1) of
           Inl e \<Rightarrow> catchTranslation (Thrown e) s1
         | Inr label \<Rightarrow>
            (case ws_send (Transcript transcript result_text (stringifyField label)) s1 of
               Returned s2 \<Rightarrow> s2
             | Threw e s2 \<Rightarrow> catchTranslation (Thrown e) s2))"

definition onTranslationRejected :: "jsstring \<Rightarrow> session \<Rightarrow> session" where
  "onTranslationRejected message s = catchTranslation (Rejected message) s"

definition onDeepgramOpen :: "session \<Rightarrow> outcome" where
  "onDeepgramOpen s =
     (if isWebSocketClosed s then
        deepgram_finish (console_log LogWebSocketClosedClosingDeepgram s)
      else
        let s1 = console_log LogDeepgramConnectionOpened s;
            s2 = sendDebugToClient DeepgramConnectionOpened s1;
            s3 = s2\<lparr>isDeepgramConnected := True\<rparr>
        in andThen (ws_send (Status (js ''Connected'')) s3) (\<lambda>s4.
           andThen (deepgram_addTranscriptListener s4) (\<lambda>s5.
           Returned (setupMicrophone s5))))"

definition onDeepgramError :: "jsstring \<Rightarrow> session \<Rightarrow> outcome" where
  "onDeepgramError message s =
     (let s1 = console_log (ErrDeepgram message) s;
          s2 = sendDebugToClient (DeepgramErrorText message) s1
      in ws_send (Error (js ''Transcription error occurred'')) s2)"

text \<open>The callback of \<open>setTimeout\<close> in the \<open>Close\<close> listener.\<close>

definition reconnect :: "session \<Rightarrow> session" where
  "reconnect s = setupDeepgram (sendDebugToClient AttemptingToReconnect s)"

definition onDeepgramClose :: "session \<Rightarrow> outcome" where
  "onDeepgramClose s =
     (let s1 = console_log LogDeepgramConnectionClosed s;
          s2 = sendDebugToClient DeepgramConnectionClosed s1;
          s3 = s2\<lparr>isDeepgramConnected := False\<rparr>
      in andThen (ws_send (Status (js ''Disconnected'')) s3) (\<lambda>s4.
           Returned (if \<not> isWebSocketClosed s4 \<and> ws_readyState s4 = OPEN
                     then s4\<lparr>timers := timers s4 @ [5000]\<rparr> else s4)))"

definition onDeepgramUnhandledError :: "jsstring \<Rightarrow> session \<Rightarrow> session" where
  "onDeepgramUnhandledError message s =
     sendDebugToClient (UnhandledDeepgramErrorText message) (console_log (ErrUnhandledDeepgram message) s)"

subsection \<open>The listeners of the microphone\<close>

text \<open>
  The four lines after \<open>deepgramConnection.send\<close>, which the microphone's handler and the
  \<open>audioData\<close> branch share: count the length, and report the total when the last report
  is five seconds old.  \<open>now\<close> is \<open>Date.now()\<close>.
\<close>

definition countAudio :: "nat option \<Rightarrow> int \<Rightarrow> session \<Rightarrow> session" where
  "countAudio len now s =
     (let total = (case (totalAudioBytesSent s, len) of
                     (Some t, Some n) \<Rightarrow>
                       if int (t + n) \<le> 9007199254740992 then Some (t + n) else None
                   | _ \<Rightarrow> None);
          s1 = s\<lparr>totalAudioBytesSent := total\<rparr>
      in if now - lastAudioSentTimestamp s1 \<ge> 5000
         then (sendDebugToClient (SentTotalBytes (totalAudioBytesSent s1)) s1)\<lparr>lastAudioSentTimestamp := now\<rparr>
         else s1)"

definition onMicData :: "8 word list \<Rightarrow> int \<Rightarrow> session \<Rightarrow> outcome" where
  "onMicData data now s =
     (case connectedAndOpen s of
        Inl e \<Rightarrow> Threw e s
      | Inr True \<Rightarrow>
          andThen (deepgram_send (FromMic data) s) (\<lambda>s1.
          Returned (countAudio (Some (length data)) now s1))
      | Inr False \<Rightarrow>
          let s1 = sendDebugToClient
                     (MicDataButNotOpen (map_option (\<lambda>(_, d). readyState d) (theConnection s))
                        (isDeepgramConnected s)) s
          in Returned (if \<not> isDeepgramConnected s1
                       then setupDeepgram (sendDebugToClient AttemptingToReconnect s1)
                       else s1))"

definition onMicError :: "jsstring \<Rightarrow> session \<Rightarrow> outcome" where
  "onMicError message s =
     (let s1 = console_log (ErrMicrophone message) s;
          s2 = sendDebugToClient (MicrophoneErrorText message) s1
      in ws_send (Error (js ''Microphone error occurred'')) s2)"

subsection \<open>The listeners of the client socket\<close>

text \<open>
  \<open>x.length\<close>: a \<open>TypeError\<close> on \<open>undefined\<close> and \<open>null\<close>, the length of a string or an
  array, the own property \<open>length\<close> of an object, and \<open>undefined\<close> on a number or a
  boolean.
\<close>

datatype lengthValue = Count nat | Property "json option"

definition lengthOf :: "json option \<Rightarrow> exn + lengthValue" where
  "lengthOf x =
     (case x of
        None \<Rightarrow> Inl TypeError
      | Some JNull \<Rightarrow> Inl TypeError
      | Some (JStr t) \<Rightarrow> Inr (Count (length t))
      | Some (JArr xs) \<Rightarrow> Inr (Count (length xs))
      | Some (JObj props) \<Rightarrow> Inr (Property (map_of props (js ''length'')))
      | Some _ \<Rightarrow> Inr (Property None))"

text \<open>
  The integer a number is, read from its text: the text of an integer from 0 to \<open>2^53\<close>
  is its decimal digits.
\<close>

definition isDigit :: "jschar \<Rightarrow> bool" where
  "isDigit c = (0x30 \<le> c \<and> c \<le> 0x39)"

definition natOfDecimal :: "jsstring \<Rightarrow> nat option" where
  "natOfDecimal t =
     (if t \<noteq> [] \<and> list_all isDigit t \<and> (if hd t = 0x30 then t = js ''0'' else True) then
        (let n = foldl (\<lambda>a c. 10 * a + (unat c - 48)) 0 t
         in if int n \<le> 9007199254740992 then Some n else None)
      else None)"

text \<open>
  What \<open>totalAudioBytesSent += v\<close> adds: the integer \<open>v\<close> is or is converted to (\<open>null\<close> to
  0, \<open>true\<close> to 1), or \<open>None\<close> when the sum is not an integer that is followed (\<open>undefined\<close>
  gives \<open>NaN\<close>, a string, an array or an object is concatenated).  An array or an object
  is first converted to a string, which may throw.
\<close>

definition addend :: "lengthValue \<Rightarrow> exn + nat option" where
  "addend v =
     (case v of
        Count n \<Rightarrow> Inr (Some n)
      | Property None \<Rightarrow> Inr None
      | Property (Some JNull) \<Rightarrow> Inr (Some 0)
      | Property (Some (JBool b)) \<Rightarrow> Inr (Some (if b then 1 else 0))
      | Property (Some (JNum t)) \<Rightarrow> Inr (natOfDecimal t)
      | Property (Some (JStr t)) \<Rightarrow> Inr None
      | Property (Some x) \<Rightarrow> (case ToString x of Inl e \<Rightarrow> Inl e | Inr _ \<Rightarrow> Inr None))"

definition onMessage :: "frame \<Rightarrow> int \<Rightarrow> session \<Rightarrow> outcome" where
  "onMessage message now s =
     (case JSON_parse message of
        Inl e \<Rightarrow> Threw e s
      | Inr data \<Rightarrow>
         (case getProperty data (js ''type'') of
            Inl e \<Rightarrow> Threw e s
          | Inr ty \<Rightarrow>
              if ty = Some (JStr (js ''setLanguage'')) then
                (case getProperty data (js ''language'') of
                   Inl e \<Rightarrow> Threw e s
                 | Inr language \<Rightarrow>
                     let s1 = s\<lparr>currentLanguage := language\<rparr>
                     in case supportedLanguages_get (currentLanguage s1) of
                          Inl e \<Rightarrow> Threw e s1
                        | Inr label \<Rightarrow> Returned (sendDebugToClient (LanguageSetTo label) s1))
              else if ty = Some (JStr (js ''audioData'')) then
                (if isMuted s then Returned s
                 else case connectedAndOpen s of
                   Inl e \<Rightarrow> Threw e s
                 | Inr False \<Rightarrow> Returned s
                 | Inr True \<Rightarrow>
                    (case getProperty data (js ''audio'') of
                       Inl e \<Rightarrow> Threw e s
                     | Inr audio \<Rightarrow>
                         andThen (deepgram_send (FromClient audio) s) (\<lambda>s1.
                           case lengthOf audio of
                             Inl e \<Rightarrow> Threw e s1
                           | Inr v \<Rightarrow>
                              (case addend v of
                                 Inl e \<Rightarrow> Threw e s1
                               | Inr len \<Rightarrow> Returned (countAudio len now s1)))))
              else if ty = Some (JStr (js ''mute'')) then
                Returned (sendDebugToClient ClientIsMuted (s\<lparr>isMuted := True\<rparr>))
              else if ty = Some (JStr (js ''unmute'')) then
                Returned (sendDebugToClient ClientIsUnmuted (s\<lparr>isMuted := False\<rparr>))
              else Returned s))"

definition onClose :: "session \<Rightarrow> session" where
  "onClose s =
     (let s1 = console_log LogWebSocketConnectionClosed s;
          s2 = sendDebugToClient WebSocketConnectionClosed s1;
          s3 = s2\<lparr>isWebSocketClosed := True\<rparr>;
          s4 = (case micInstance s3 of
                  None \<Rightarrow> s3
                | Some m \<Rightarrow>
                    sendDebugToClient MicrophoneStopped
                      (updateMicrophone m (\<lambda>d. d\<lparr>stopCalls := Suc (stopCalls d)\<rparr>) s3));
          s5 = (case deepgramConnection s4 of
                  None \<Rightarrow> s4
                | Some c \<Rightarrow>
                    (sendDebugToClient DeepgramConnectionFinished
                       (updateConnection c (\<lambda>d. d\<lparr>finishCalls := Suc (finishCalls d)\<rparr>) s4))
                    \<lparr>isDeepgramConnected := False\<rparr>)
      in s5\<lparr>isReceivingAudio := False\<rparr>)"

definition onError :: "jsstring \<Rightarrow> session \<Rightarrow> session" where
  "onError message s =
     sendDebugToClient (WebSocketErrorText message) (console_log (ErrWebSocket message) s)"

subsection \<open>A new connection\<close>

text \<open>
  The body of \<open>wss.on('connection')\<close>: the socket of a client that has just connected is
  open; the variables get their initial values, and \<open>setupDeepgram\<close> is called.
\<close>

definition initial :: "bool \<Rightarrow> session" where
  "initial throws =
     \<lparr>deepgramConnection = None, micInstance = None, isDeepgramConnected = False,
      totalAudioBytesSent = Some 0, lastAudioSentTimestamp = 0,
      currentLanguage = Some (JStr (js ''ja'')), isReceivingAudio = False, isMuted = False,
      isWebSocketClosed = False, ws_readyState = OPEN, ws_sendThrows = throws,
      ws_receiverStopped = False,
      connections = [], microphones = [], timers = [], received = [], console = [],
      translateCalls = [], inFlight = []\<rparr>"

definition onConnection :: "bool \<Rightarrow> session" where
  "onConnection throws =
     setupDeepgram
       (sendDebugToClient NewConnectionEstablished
          (console_log LogNewWebSocketConnection (initial throws)))"

section \<open>The events of a session\<close>

text \<open>
  What can happen to a session: the client sends a frame (with \<open>Date.now()\<close>), the client
  sends a close frame, the client's connection closes, the client socket has an error;
  the upstream connection number \<open>c\<close> opens, has a transcript, has an error, closes; the
  microphone number \<open>m\<close> has a buffer or an error; the \<open>k\<close>-th pending timer runs out; the
  promise of the \<open>k\<close>-th awaited translation is fulfilled or rejected.
\<close>

datatype event =
    ClientMessage frame int
  | ClientClosing
  | ClientClose
  | ClientError jsstring
  | DeepgramOpen nat
  | DeepgramTranscript nat dgdata
  | DeepgramError nat jsstring
  | DeepgramClose nat
  | MicrophoneData nat "8 word list" int
  | MicrophoneError nat jsstring
  | TimerFires nat
  | TranslationFulfilled nat jsstring
  | TranslationRejected nat jsstring

text \<open>
  An exception that leaves a listener reaches \<open>process.on('uncaughtException')\<close>, which
  writes it to the console.
\<close>

definition uncaughtException :: "outcome \<Rightarrow> session" where
  "uncaughtException r =
     (case r of Returned s \<Rightarrow> s | Threw e s \<Rightarrow> console_log (ErrUncaughtException e) s)"

definition removeAt :: "nat \<Rightarrow> 'a list \<Rightarrow> 'a list" where
  "removeAt k xs = take k xs @ drop (Suc k) xs"

definition microphoneRunning :: "nat \<Rightarrow> session \<Rightarrow> bool" where
  "microphoneRunning m s =
     (m < length (microphones s) \<and> 0 < startCalls (microphones s ! m) \<and> stopCalls (microphones s ! m) = 0)"

text \<open>
  An exception that leaves the \<open>'message'\<close> listener also stops the receiver of the socket.
\<close>

definition uncaughtInMessage :: "outcome \<Rightarrow> session" where
  "uncaughtInMessage r =
     (case r of
        Returned s \<Rightarrow> s
      | Threw e s \<Rightarrow> console_log (ErrUncaughtException e) (s\<lparr>ws_receiverStopped := True\<rparr>))"

text \<open>
  One turn of the event loop.  The ready states are changed here, by the world, before
  the listener runs.

  The client socket: a frame reaches the \<open>'message'\<close> listener while the socket is open and
  its receiver has not been stopped; so does a close frame, which makes the socket
  \<open>CLOSING\<close>.  When the connection closes, the socket becomes \<open>CLOSED\<close> and the \<open>'close'\<close>
  listener runs, unless the receiver has been stopped: then the socket stays \<open>CLOSING\<close>
  and the listener never runs.

  The upstream connection: \<open>LiveTranscriptionEvents.Error\<close> is the event \<open>'error'\<close>, so both
  listeners of the source run on it, in the order in which they were added, the second
  one if the first one returns.

  An event that cannot happen in the state (an event of a connection that does not exist
  or is in the wrong ready state, a buffer of a microphone that is not running, a timer or
  a translation that is not pending) leaves the state as it is.
\<close>

fun fire :: "event \<Rightarrow> session \<Rightarrow> session" where
  "fire (ClientMessage message now) s =
     (if ws_readyState s = OPEN \<and> \<not> ws_receiverStopped s
      then uncaughtInMessage (onMessage message now s) else s)"
| "fire ClientClosing s =
     (if ws_readyState s = OPEN \<and> \<not> ws_receiverStopped s
      then s\<lparr>ws_readyState := CLOSING\<rparr> else s)"
| "fire ClientClose s =
     (if ws_readyState s = CLOSED then s
      else if ws_receiverStopped s then s\<lparr>ws_readyState := CLOSING\<rparr>
      else onClose (s\<lparr>ws_readyState := CLOSED\<rparr>))"
| "fire (ClientError message) s = onError message s"
| "fire (DeepgramOpen c) s =
     (if c < length (connections s) \<and> readyState (connections s ! c) = CONNECTING
      then uncaughtException (onDeepgramOpen (updateConnection c (\<lambda>d. d\<lparr>readyState := OPEN\<rparr>) s))
      else s)"
| "fire (DeepgramTranscript c data) s =
     (if c < length (connections s) \<and> readyState (connections s ! c) = OPEN
      then (onTranscript data ^^ transcriptListeners (connections s ! c)) s
      else s)"
| "fire (DeepgramError c message) s =
     (if c < length (connections s)
      then uncaughtException
             (andThen (onDeepgramError message s) (\<lambda>s1.
              Returned (onDeepgramUnhandledError message s1)))
      else s)"
| "fire (DeepgramClose c) s =
     (if c < length (connections s) \<and> readyState (connections s ! c) \<noteq> CLOSED
      then uncaughtException (onDeepgramClose (updateConnection c (\<lambda>d. d\<lparr>readyState := CLOSED\<rparr>) s))
      else s)"
| "fire (MicrophoneData m data now) s =
     (if microphoneRunning m s then uncaughtException (onMicData data now s) else s)"
| "fire (MicrophoneError m message) s =
     (if m < length (microphones s) then uncaughtException (onMicError message s) else s)"
| "fire (TimerFires k) s =
     (if k < length (timers s) then reconnect (s\<lparr>timers := removeAt k (timers s)\<rparr>) else s)"
| "fire (TranslationFulfilled k result_text) s =
     (if k < length (inFlight s)
      then onTranslated (inFlight s ! k) result_text (s\<lparr>inFlight := removeAt k (inFlight s)\<rparr>)
      else s)"
| "fire (TranslationRejected k message) s =
     (if k < length (inFlight s)
      then onTranslationRejected message (s\<lparr>inFlight := removeAt k (inFlight s)\<rparr>)
      else s)"

fun run :: "event list \<Rightarrow> session \<Rightarrow> session" where
  "run [] s = s"
| "run (e # es) s = run es (fire e s)"

text \<open>The connections whose socket is open.\<close>

definition openConnections :: "session \<Rightarrow> nat list" where
  "openConnections s = filter (\<lambda>c. readyState (connections s ! c) = OPEN) [0 ..< length (connections s)]"

section \<open>The server without translation\<close>

text \<open>
  The other server of the repository logs with \<open>winston\<close> and sends the transcript
  itself.  Its \<open>Transcript\<close> listener reads and writes the client socket and the log only.
\<close>

datatype loggerEntry = DebugReceivedTranscript jsstring | DebugReceivedEmptyTranscript

record relay =
  relay_readyState :: readyState
  relay_received :: "(jsstring \<times> jsstring) list"
  relay_log :: "loggerEntry list"

definition sendToClient :: "jsstring \<Rightarrow> jsstring \<Rightarrow> relay \<Rightarrow> relay" where
  "sendToClient type message r =
     (if relay_readyState r = OPEN then r\<lparr>relay_received := relay_received r @ [(type, message)]\<rparr>
      else r)"

definition onTranscript_relay :: "dgdata \<Rightarrow> relay \<Rightarrow> exn + relay" where
  "onTranscript_relay data r =
     (case data of
        Results [] \<Rightarrow> Inl TypeError
      | Results (transcript # _) \<Rightarrow>
          if transcript \<noteq> [] then
            Inr (sendToClient (js ''transcript'') transcript
                   (r\<lparr>relay_log := relay_log r @ [DebugReceivedTranscript transcript]\<rparr>))
          else Inr (r\<lparr>relay_log := relay_log r @ [DebugReceivedEmptyTranscript]\<rparr>))"

section \<open>Notions of the properties\<close>

text \<open>Everything that has been sent upstream, on any connection.\<close>

definition forwarded :: "session \<Rightarrow> payload list" where
  "forwarded s = concat (map sent (connections s))"

text \<open>A frame of the client that the \<open>setLanguage\<close> branch of the message handler takes.\<close>

definition isSetLanguage :: "event \<Rightarrow> bool" where
  "isSetLanguage e =
     (case e of
        ClientMessage (Wellformed data) _ \<Rightarrow>
          getProperty data (js ''type'') = Inr (Some (JStr (js ''setLanguage'')))
      | _ \<Rightarrow> False)"

text \<open>The frames \<open>{"type":"mute"}\<close> and \<open>{"type":"setLanguage","language":code}\<close>.\<close>

definition muteMessage :: frame where
  "muteMessage = Wellformed (JObj [(js ''type'', JStr (js ''mute''))])"

definition setLanguageMessage :: "json \<Rightarrow> frame" where
  "setLanguageMessage code =
     Wellformed (JObj [(js ''type'', JStr (js ''setLanguage'')), (js ''language'', code)])"

text \<open>The \<open>transcript\<close> events among what the client has been sent.\<close>

definition isTranscriptEvent :: "client_event \<Rightarrow> bool" where
  "isTranscriptEvent m = (case m of Transcript _ _ _ \<Rightarrow> True | _ \<Rightarrow> False)"

definition transcriptEvents :: "session \<Rightarrow> client_event list" where
  "transcriptEvents s = filter isTranscriptEvent (received s)"

text \<open>
  No blank transcript is awaited, and none has been sent to the client in a \<open>transcript\<close>
  event.
\<close>

definition awaitedNotBlank :: "session \<Rightarrow> bool" where
  "awaitedNotBlank s =
     ((\<forall>T \<in> set (inFlight s). trim T \<noteq> []) \<and>
      (\<forall>m \<in> set (received s). \<forall>T r l. m = Transcript T r l \<longrightarrow> trim T \<noteq> []))"

section \<open>What the primitives leave alone\<close>

lemma sendDebugToClient_not_open: "ws_readyState s \<noteq> OPEN \<Longrightarrow> sendDebugToClient m s = s"
  by (simp add: sendDebugToClient_def)

lemma sendDebugToClient_fields:
  "deepgramConnection (sendDebugToClient m s) = deepgramConnection s"
  "micInstance (sendDebugToClient m s) = micInstance s"
  "isDeepgramConnected (sendDebugToClient m s) = isDeepgramConnected s"
  "totalAudioBytesSent (sendDebugToClient m s) = totalAudioBytesSent s"
  "lastAudioSentTimestamp (sendDebugToClient m s) = lastAudioSentTimestamp s"
  "currentLanguage (sendDebugToClient m s) = currentLanguage s"
  "isReceivingAudio (sendDebugToClient m s) = isReceivingAudio s"
  "isMuted (sendDebugToClient m s) = isMuted s"
  "isWebSocketClosed (sendDebugToClient m s) = isWebSocketClosed s"
  "ws_readyState (sendDebugToClient m s) = ws_readyState s"
  "ws_sendThrows (sendDebugToClient m s) = ws_sendThrows s"
  "ws_receiverStopped (sendDebugToClient m s) = ws_receiverStopped s"
  "connections (sendDebugToClient m s) = connections s"
  "microphones (sendDebugToClient m s) = microphones s"
  "timers (sendDebugToClient m s) = timers s"
  "console (sendDebugToClient m s) = console s"
  "translateCalls (sendDebugToClient m s) = translateCalls s"
  "inFlight (sendDebugToClient m s) = inFlight s"
  by (simp_all add: sendDebugToClient_def)

lemma console_log_fields:
  "deepgramConnection (console_log m s) = deepgramConnection s"
  "micInstance (console_log m s) = micInstance s"
  "isDeepgramConnected (console_log m s) = isDeepgramConnected s"
  "totalAudioBytesSent (console_log m s) = totalAudioBytesSent s"
  "lastAudioSentTimestamp (console_log m s) = lastAudioSentTimestamp s"
  "currentLanguage (console_log m s) = currentLanguage s"
  "isReceivingAudio (console_log m s) = isReceivingAudio s"
  "isMuted (console_log m s) = isMuted s"
  "isWebSocketClosed (console_log m s) = isWebSocketClosed s"
  "ws_readyState (console_log m s) = ws_readyState s"
  "ws_sendThrows (console_log m s) = ws_sendThrows s"
  "ws_receiverStopped (console_log m s) = ws_receiverStopped s"
  "connections (console_log m s) = connections s"
  "microphones (console_log m s) = microphones s"
  "timers (console_log m s) = timers s"
  "received (console_log m s) = received s"
  "translateCalls (console_log m s) = translateCalls s"
  "inFlight (console_log m s) = inFlight s"
  by (simp_all add: console_log_def)

lemma updateConnection_fields:
  "deepgramConnection (updateConnection c f s) = deepgramConnection s"
  "micInstance (updateConnection c f s) = micInstance s"
  "isDeepgramConnected (updateConnection c f s) = isDeepgramConnected s"
  "totalAudioBytesSent (updateConnection c f s) = totalAudioBytesSent s"
  "lastAudioSentTimestamp (updateConnection c f s) = lastAudioSentTimestamp s"
  "currentLanguage (updateConnection c f s) = currentLanguage s"
  "isReceivingAudio (updateConnection c f s) = isReceivingAudio s"
  "isMuted (updateConnection c f s) = isMuted s"
  "isWebSocketClosed (updateConnection c f s) = isWebSocketClosed s"
  "ws_readyState (updateConnection c f s) = ws_readyState s"
  "ws_sendThrows (updateConnection c f s) = ws_sendThrows s"
  "ws_receiverStopped (updateConnection c f s) = ws_receiverStopped s"
  "connections (updateConnection c f s) = (connections s)[c := f (connections s ! c)]"
  "microphones (updateConnection c f s) = microphones s"
  "timers (updateConnection c f s) = timers s"
  "received (updateConnection c f s) = received s"
  "console (updateConnection c f s) = console s"
  "translateCalls (updateConnection c f s) = translateCalls s"
  "inFlight (updateConnection c f s) = inFlight s"
  by (simp_all add: updateConnection_def list_update_beyond)

lemma updateMicrophone_fields:
  "deepgramConnection (updateMicrophone m f s) = deepgramConnection s"
  "micInstance (updateMicrophone m f s) = micInstance s"
  "isDeepgramConnected (updateMicrophone m f s) = isDeepgramConnected s"
  "totalAudioBytesSent (updateMicrophone m f s) = totalAudioBytesSent s"
  "lastAudioSentTimestamp (updateMicrophone m f s) = lastAudioSentTimestamp s"
  "currentLanguage (updateMicrophone m f s) = currentLanguage s"
  "isReceivingAudio (updateMicrophone m f s) = isReceivingAudio s"
  "isMuted (updateMicrophone m f s) = isMuted s"
  "isWebSocketClosed (updateMicrophone m f s) = isWebSocketClosed s"
  "ws_readyState (updateMicrophone m f s) = ws_readyState s"
  "ws_sendThrows (updateMicrophone m f s) = ws_sendThrows s"
  "ws_receiverStopped (updateMicrophone m f s) = ws_receiverStopped s"
  "connections (updateMicrophone m f s) = connections s"
  "microphones (updateMicrophone m f s) = (microphones s)[m := f (microphones s ! m)]"
  "timers (updateMicrophone m f s) = timers s"
  "received (updateMicrophone m f s) = received s"
  "console (updateMicrophone m f s) = console s"
  "translateCalls (updateMicrophone m f s) = translateCalls s"
  "inFlight (updateMicrophone m f s) = inFlight s"
  by (simp_all add: updateMicrophone_def list_update_beyond)

lemmas prim_fields =
  sendDebugToClient_fields console_log_fields updateConnection_fields updateMicrophone_fields

lemma setupDeepgram_forwarded: "forwarded (setupDeepgram s) = forwarded s"
  by (simp add: setupDeepgram_def forwarded_def newConnection_def Let_def prim_fields)

section \<open>Audio and the mute flag\<close>

text \<open>
  The \<open>audioData\<close> branch forwards nothing while \<open>isMuted\<close> is set or while the upstream
  connection is not connected and open: the handler returns the state as it was.
\<close>

lemma audioData_not_forwarded:
  assumes "getProperty data (js ''type'') = Inr (Some (JStr (js ''audioData'')))"
    and "isMuted s \<or> connectedAndOpen s = Inr False"
  shows "onMessage (Wellformed data) now s = Returned s"
  using assms by (auto simp: onMessage_def JSON_parse_def js_def)

text \<open>
  The microphone's handler forwards nothing while the upstream connection is not connected
  and open (it may create a new connection, on which nothing has been sent).
\<close>

lemma micData_not_forwarded_when_not_open:
  assumes "connectedAndOpen s = Inr False"
  shows "forwarded (uncaughtException (onMicData data now s)) = forwarded s"
  using assms
  by (simp add: onMicData_def uncaughtException_def Let_def setupDeepgram_forwarded)
     (simp add: forwarded_def prim_fields)

text \<open>
  While the upstream connection is connected and open, the microphone's handler sends the
  buffer on it, whatever \<open>isMuted\<close> says.
\<close>

lemma micData_forwarded_when_open:
  assumes "isDeepgramConnected s" and "theConnection s = Some (c, d)" and "readyState d = OPEN"
  shows "sent (connections (uncaughtException (onMicData data now s)) ! c) = sent d @ [FromMic data]"
proof -
  from assms(2) have c: "c < length (connections s)" "connections s ! c = d"
    by (auto simp: theConnection_def split: option.splits if_splits)
  have "connectedAndOpen s = Inr True"
    using assms by (simp add: connectedAndOpen_def)
  then show ?thesis
    using assms(2) c
    by (simp add: onMicData_def andThen_def deepgram_send_def uncaughtException_def
          countAudio_def Let_def prim_fields)
qed

text \<open>
  C1. Claim: for every sequence of audio chunks that arrive while \<open>isMuted\<close> is true, or
  while no upstream stream is open, nothing is forwarded upstream, for the \<open>audioData\<close>
  messages of the client and for the audio of the local microphone alike.  The
  microphone's handler does not read \<open>isMuted\<close>: after the upstream connection has
  opened and the client has sent \<open>mute\<close>, a buffer of three bytes from the microphone
  is sent upstream and counted.
\<close>

theorem muted_microphone_audio_is_forwarded:
  "let s = run [DeepgramOpen 0, ClientMessage muteMessage 1000, MicrophoneData 0 [1, 2, 3] 2000]
             (onConnection False)
   in isMuted s \<and> forwarded s = [FromMic [1, 2, 3]] \<and> totalAudioBytesSent s = Some 3"
  by code_simp

section \<open>Upstream connections\<close>

text \<open>
  C2. Claim: in every reachable state of a session at most one upstream stream is open,
  also during a reconnect race, when a connection has closed and the microphone's handler
  calls \<open>setupDeepgram\<close> while \<open>isDeepgramConnected\<close> is false.  \<open>setupDeepgram\<close> returns early only when \<open>isDeepgramConnected\<close> is set, which
  happens when a connection opens, not when it is created.  After the first connection
  has closed, a buffer of the microphone creates a second connection and the reconnect
  timer a third one; both open.
\<close>

theorem two_upstream_streams_open_after_reconnect_race:
  "let s = run [DeepgramOpen 0, DeepgramClose 0, MicrophoneData 0 [1, 2, 3] 1000, TimerFires 0,
                DeepgramOpen 1, DeepgramOpen 2]
             (onConnection False)
   in map readyState (connections s) = [CLOSED, OPEN, OPEN] \<and> openConnections s = [1, 2]"
  by code_simp

section \<open>The language of a translation\<close>

lemma setupDeepgram_currentLanguage: "currentLanguage (setupDeepgram s) = currentLanguage s"
  by (simp add: setupDeepgram_def Let_def prim_fields)

lemma setupMicrophone_currentLanguage: "currentLanguage (setupMicrophone s) = currentLanguage s"
  by (simp add: setupMicrophone_def Let_def prim_fields)

lemma countAudio_currentLanguage: "currentLanguage (countAudio n now s) = currentLanguage s"
  by (simp add: countAudio_def Let_def prim_fields)

lemma onTranscript_currentLanguage: "currentLanguage (onTranscript d s) = currentLanguage s"
  by (simp add: onTranscript_def Let_def prim_fields split: dgdata.splits list.splits)

lemma funpow_onTranscript_currentLanguage:
  "currentLanguage ((onTranscript d ^^ k) s) = currentLanguage s"
  by (induction k) (simp_all add: onTranscript_currentLanguage)

lemma onTranscript_translateCalls:
  "T \<noteq> [] \<Longrightarrow> trim T \<noteq> [] \<Longrightarrow>
   translateCalls (onTranscript (Results (T # alts)) s) = translateCalls s @ [(T, currentLanguage s)]"
  by (simp add: onTranscript_def Let_def prim_fields)

lemma funpow_onTranscript_translateCalls:
  "T \<noteq> [] \<Longrightarrow> trim T \<noteq> [] \<Longrightarrow>
   translateCalls ((onTranscript (Results (T # alts)) ^^ k) s) =
     translateCalls s @ replicate k (T, currentLanguage s)"
proof (induction k)
  case 0
  then show ?case by simp
next
  case (Suc k)
  then show ?case
    by (simp add: onTranscript_translateCalls funpow_onTranscript_currentLanguage
          replicate_append_same)
qed

lemma onClose_currentLanguage: "currentLanguage (onClose s) = currentLanguage s"
  by (simp add: onClose_def Let_def prim_fields split: option.splits)

text \<open>Only the \<open>setLanguage\<close> branch assigns \<open>currentLanguage\<close>.\<close>

lemma fire_currentLanguage:
  assumes "\<not> isSetLanguage e"
  shows "currentLanguage (fire e s) = currentLanguage s"
proof (cases e)
  case (ClientMessage message now)
  show ?thesis
  proof (cases message)
    case Malformed
    then show ?thesis using ClientMessage
      by (simp add: onMessage_def JSON_parse_def uncaughtInMessage_def prim_fields)
  next
    case (Wellformed data)
    then have "getProperty data (js ''type'') \<noteq> Inr (Some (JStr (js ''setLanguage'')))"
      using assms ClientMessage by (simp add: isSetLanguage_def)
    then show ?thesis using ClientMessage Wellformed
      by (auto simp: onMessage_def JSON_parse_def uncaughtInMessage_def prim_fields andThen_def
            deepgram_send_def countAudio_currentLanguage
            split: sum.splits option.splits bool.splits prod.splits)
  qed
next
  case (DeepgramTranscript c d)
  then show ?thesis by (simp add: funpow_onTranscript_currentLanguage)
next
  case ClientClose
  then show ?thesis by (simp add: onClose_currentLanguage)
next
  case (DeepgramOpen c)
  then show ?thesis
    by (auto simp: onDeepgramOpen_def uncaughtException_def andThen_def ws_send_def
          deepgram_finish_def deepgram_addTranscriptListener_def setupMicrophone_currentLanguage
          prim_fields Let_def split: option.splits prod.splits)
next
  case (MicrophoneData m d now)
  then show ?thesis
    by (auto simp: onMicData_def uncaughtException_def andThen_def deepgram_send_def
          setupDeepgram_currentLanguage countAudio_currentLanguage
          prim_fields Let_def split: option.splits prod.splits sum.splits bool.splits)
qed (auto simp: onError_def onDeepgramError_def onDeepgramUnhandledError_def onDeepgramClose_def
       onMicError_def reconnect_def onTranslated_def onTranslationRejected_def catchTranslation_def
       uncaughtException_def andThen_def ws_send_def setupDeepgram_currentLanguage
       prim_fields Let_def split: outcome.splits sum.splits)

lemma run_currentLanguage:
  "\<forall>e \<in> set es. \<not> isSetLanguage e \<Longrightarrow> currentLanguage (run es s) = currentLanguage s"
  by (induction es arbitrary: s) (simp_all add: fire_currentLanguage)

text \<open>
  A \<open>setLanguage\<close> frame that reaches the handler assigns \<open>currentLanguage\<close> and then builds
  the \<open>debug\<close> line with \<open>supportedLanguages[currentLanguage]\<close>: the line is sent, or the
  lookup throws, after the assignment.  Nothing of the upstream link is touched.
\<close>

lemma setLanguage_effect:
  assumes "getProperty data (js ''type'') = Inr (Some (JStr (js ''setLanguage'')))"
    and "getProperty data (js ''language'') = Inr L"
    and "ws_readyState s = OPEN" and "\<not> ws_receiverStopped s"
  shows "fire (ClientMessage (Wellformed data) now) s =
           (case supportedLanguages_get L of
              Inr label \<Rightarrow>
                s\<lparr>currentLanguage := L,
                  received := received s @ [Debug (LanguageSetTo label)]\<rparr>
            | Inl e \<Rightarrow>
                s\<lparr>currentLanguage := L, ws_receiverStopped := True,
                  console := console s @ [ErrUncaughtException e]\<rparr>)"
  using assms
  by (simp add: onMessage_def JSON_parse_def uncaughtInMessage_def sendDebugToClient_def
        console_log_def Let_def split: sum.splits)

text \<open>
  When a \<open>setLanguage\<close> frame with the language \<open>L\<close> has reached the handler and no other
  one has after it, a transcript that is not blank is passed to the translator with \<open>L\<close>,
  once by each \<open>Transcript\<close> listener of the connection it arrives on.
\<close>

lemma delivered_setLanguage_is_used:
  assumes "getProperty data (js ''type'') = Inr (Some (JStr (js ''setLanguage'')))"
    and "getProperty data (js ''language'') = Inr L"
    and "ws_readyState s = OPEN" and "\<not> ws_receiverStopped s"
    and "\<forall>e \<in> set es. \<not> isSetLanguage e"
    and "T \<noteq> []" and "trim T \<noteq> []"
    and "s2 = run es (fire (ClientMessage (Wellformed data) now) s)"
  shows "currentLanguage s2 = L"
    and "translateCalls (onTranscript (Results (T # alts)) s2) = translateCalls s2 @ [(T, L)]"
    and "c < length (connections s2) \<Longrightarrow> readyState (connections s2 ! c) = OPEN \<Longrightarrow>
           translateCalls (fire (DeepgramTranscript c (Results (T # alts))) s2) =
             translateCalls s2 @ replicate (transcriptListeners (connections s2 ! c)) (T, L)"
proof -
  have "currentLanguage (fire (ClientMessage (Wellformed data) now) s) = L"
    by (subst setLanguage_effect[OF assms(1-4)]) (simp split: sum.splits)
  then show lang: "currentLanguage s2 = L"
    using assms(5,8) by (simp add: run_currentLanguage)
  show "translateCalls (onTranscript (Results (T # alts)) s2) = translateCalls s2 @ [(T, L)]"
    using assms(6,7) lang by (simp add: onTranscript_translateCalls)
  show "translateCalls (fire (DeepgramTranscript c (Results (T # alts))) s2) =
             translateCalls s2 @ replicate (transcriptListeners (connections s2 ! c)) (T, L)"
    if "c < length (connections s2)" "readyState (connections s2 ! c) = OPEN"
    using that assms(6,7) lang by (simp add: funpow_onTranscript_translateCalls)
qed

text \<open>
  C3. Claim: when \<open>setLanguage(L)\<close> is the latest language command before a transcript
  \<open>T\<close> that is not blank arrives from the upstream link, the translator is called with
  \<open>(T, L)\<close> and never with a language set before, and \<open>setLanguage\<close> does not restart the
  upstream link.  A frame that makes the \<open>'message'\<close> listener throw stops the receiver of
  the client socket: after \<open>setLanguage(es)\<close> and a frame that is not JSON, the frame
  \<open>setLanguage(ko)\<close> never reaches the handler, and the transcript that follows is passed
  to the translator with \<open>es\<close>.
\<close>

theorem setLanguage_after_thrown_frame_is_lost:
  "let s = run [DeepgramOpen 0,
                ClientMessage (setLanguageMessage (JStr (js ''es''))) 1000,
                ClientMessage Malformed 2000,
                ClientMessage (setLanguageMessage (JStr (js ''ko''))) 3000,
                DeepgramTranscript 0 (Results [js ''hello''])]
             (onConnection False)
   in ws_readyState s = OPEN \<and> ws_receiverStopped s \<and>
      currentLanguage s = Some (JStr (js ''es'')) \<and>
      translateCalls s = [(js ''hello'', Some (JStr (js ''es'')))]"
  by code_simp

section \<open>Blank transcripts\<close>

lemma dropWhile_all_iff: "(\<forall>x \<in> set (dropWhile P xs). P x) \<longleftrightarrow> (\<forall>x \<in> set xs. P x)"
  by (induction xs) auto

lemma trim_empty_iff: "trim t = [] \<longleftrightarrow> (\<forall>c \<in> set t. isWhiteSpace c)"
  by (simp add: trim_def dropWhile_eq_Nil_conv dropWhile_all_iff)

text \<open>
  The listener of the translating server drops a transcript that is empty or all white
  space: no call of the translator, nothing awaited, and the client gets \<open>debug\<close>
  messages only.
\<close>

lemma onTranscript_blank_dropped:
  assumes "\<forall>c \<in> set T. isWhiteSpace c"
  shows "translateCalls (onTranscript (Results (T # alts)) s) = translateCalls s \<and>
         inFlight (onTranscript (Results (T # alts)) s) = inFlight s \<and>
         received (onTranscript (Results (T # alts)) s) = received s @
           (if ws_readyState s = OPEN
            then [Debug (RawTranscriptData (Results (T # alts))), Debug (ExtractedTranscript T),
                  Debug ReceivedEmptyTranscript]
            else [])"
proof -
  have "trim T = []" using assms by (simp add: trim_empty_iff)
  then show ?thesis
    by (simp add: onTranscript_def Let_def prim_fields) (simp add: sendDebugToClient_def)
qed

subsection \<open>The \<open>transcript\<close> events of a session\<close>

lemma transcriptEvents_sendDebugToClient [simp]:
  "transcriptEvents (sendDebugToClient m s) = transcriptEvents s"
  by (simp add: transcriptEvents_def sendDebugToClient_def isTranscriptEvent_def)

lemma transcriptEvents_console_log [simp]:
  "transcriptEvents (console_log m s) = transcriptEvents s"
  by (simp add: transcriptEvents_def console_log_def)

lemma transcriptEvents_updateConnection [simp]:
  "transcriptEvents (updateConnection c f s) = transcriptEvents s"
  by (simp add: transcriptEvents_def updateConnection_def)

lemma transcriptEvents_updateMicrophone [simp]:
  "transcriptEvents (updateMicrophone c f s) = transcriptEvents s"
  by (simp add: transcriptEvents_def updateMicrophone_def)

lemma transcriptEvents_update [simp]:
  "transcriptEvents (s\<lparr>deepgramConnection := a\<rparr>) = transcriptEvents s"
  "transcriptEvents (s\<lparr>micInstance := b\<rparr>) = transcriptEvents s"
  "transcriptEvents (s\<lparr>isDeepgramConnected := c\<rparr>) = transcriptEvents s"
  "transcriptEvents (s\<lparr>totalAudioBytesSent := d\<rparr>) = transcriptEvents s"
  "transcriptEvents (s\<lparr>lastAudioSentTimestamp := e\<rparr>) = transcriptEvents s"
  "transcriptEvents (s\<lparr>currentLanguage := f\<rparr>) = transcriptEvents s"
  "transcriptEvents (s\<lparr>isReceivingAudio := g\<rparr>) = transcriptEvents s"
  "transcriptEvents (s\<lparr>isMuted := h\<rparr>) = transcriptEvents s"
  "transcriptEvents (s\<lparr>isWebSocketClosed := i\<rparr>) = transcriptEvents s"
  "transcriptEvents (s\<lparr>ws_readyState := j\<rparr>) = transcriptEvents s"
  "transcriptEvents (s\<lparr>ws_receiverStopped := j'\<rparr>) = transcriptEvents s"
  "transcriptEvents (s\<lparr>connections := k\<rparr>) = transcriptEvents s"
  "transcriptEvents (s\<lparr>microphones := l\<rparr>) = transcriptEvents s"
  "transcriptEvents (s\<lparr>timers := m\<rparr>) = transcriptEvents s"
  "transcriptEvents (s\<lparr>console := n\<rparr>) = transcriptEvents s"
  "transcriptEvents (s\<lparr>translateCalls := p\<rparr>) = transcriptEvents s"
  "transcriptEvents (s\<lparr>inFlight := q\<rparr>) = transcriptEvents s"
  by (simp_all add: transcriptEvents_def)

lemma transcriptEvents_received_update:
  "transcriptEvents (s\<lparr>received := r\<rparr>) = filter isTranscriptEvent r"
  by (simp add: transcriptEvents_def)

lemma filter_received: "filter isTranscriptEvent (received s) = transcriptEvents s"
  by (simp add: transcriptEvents_def)

lemmas transcriptEvents_received_append =
  transcriptEvents_received_update filter_received

lemma setupDeepgram_transcriptEvents [simp]: "transcriptEvents (setupDeepgram s) = transcriptEvents s"
  by (simp add: setupDeepgram_def Let_def)

lemma setupMicrophone_transcriptEvents [simp]: "transcriptEvents (setupMicrophone s) = transcriptEvents s"
  by (simp add: setupMicrophone_def Let_def)

lemma countAudio_transcriptEvents [simp]: "transcriptEvents (countAudio n now s) = transcriptEvents s"
  by (simp add: countAudio_def Let_def)

lemma onTranscript_transcriptEvents [simp]: "transcriptEvents (onTranscript d s) = transcriptEvents s"
  by (simp add: onTranscript_def Let_def split: dgdata.splits list.splits)

lemma funpow_onTranscript_transcriptEvents [simp]:
  "transcriptEvents ((onTranscript d ^^ k) s) = transcriptEvents s"
  by (induction k) simp_all

lemma onClose_transcriptEvents [simp]: "transcriptEvents (onClose s) = transcriptEvents s"
  by (simp add: onClose_def Let_def split: option.splits)

lemma onMessage_transcriptEvents [simp]:
  "transcriptEvents (uncaughtInMessage (onMessage message now s)) = transcriptEvents s"
  by (auto simp: onMessage_def JSON_parse_def uncaughtInMessage_def andThen_def deepgram_send_def
        Let_def split: sum.splits option.splits bool.splits prod.splits frame.splits)

lemma onDeepgramOpen_transcriptEvents [simp]:
  "transcriptEvents (uncaughtException (onDeepgramOpen s)) = transcriptEvents s"
  by (auto simp: onDeepgramOpen_def uncaughtException_def andThen_def ws_send_def
        deepgram_finish_def deepgram_addTranscriptListener_def Let_def
        transcriptEvents_received_append isTranscriptEvent_def
        split: option.splits prod.splits)

lemma onDeepgramClose_transcriptEvents [simp]:
  "transcriptEvents (uncaughtException (onDeepgramClose s)) = transcriptEvents s"
  by (auto simp: onDeepgramClose_def uncaughtException_def andThen_def ws_send_def Let_def
        transcriptEvents_received_append isTranscriptEvent_def)

lemma onDeepgramError_transcriptEvents [simp]:
  "transcriptEvents (uncaughtException (onDeepgramError m s)) = transcriptEvents s"
  by (auto simp: onDeepgramError_def uncaughtException_def ws_send_def Let_def
        transcriptEvents_received_append isTranscriptEvent_def)

lemma onMicError_transcriptEvents [simp]:
  "transcriptEvents (uncaughtException (onMicError m s)) = transcriptEvents s"
  by (auto simp: onMicError_def uncaughtException_def ws_send_def Let_def
        transcriptEvents_received_append isTranscriptEvent_def)

lemma onMicData_transcriptEvents [simp]:
  "transcriptEvents (uncaughtException (onMicData d now s)) = transcriptEvents s"
  by (auto simp: onMicData_def uncaughtException_def andThen_def deepgram_send_def Let_def
        split: option.splits prod.splits sum.splits bool.splits)

lemma onDeepgramError_both_transcriptEvents [simp]:
  "transcriptEvents
     (uncaughtException (andThen (onDeepgramError m s) (\<lambda>s1.
        Returned (onDeepgramUnhandledError m s1)))) = transcriptEvents s"
  by (auto simp: onDeepgramError_def onDeepgramUnhandledError_def uncaughtException_def
        andThen_def ws_send_def Let_def transcriptEvents_received_append isTranscriptEvent_def)

lemma onTranslated_transcriptEvents:
  "transcriptEvents (onTranslated T r s) = transcriptEvents s @
     (if ws_readyState s = OPEN
      then (case supportedLanguages_get (currentLanguage s) of
              Inl e \<Rightarrow> []
            | Inr label \<Rightarrow> [Transcript T r (stringifyField label)])
      else [])"
  by (simp add: onTranslated_def ws_send_def Let_def catchTranslation_def prim_fields
        split: sum.splits)
     (simp add: transcriptEvents_def sendDebugToClient_def isTranscriptEvent_def)

text \<open>
  The only \<open>transcript\<close> events a session ever sends: one when an awaited translation is
  fulfilled while the client's socket is open and the lookup of the label does not throw.
\<close>

lemma fire_transcriptEvents:
  "transcriptEvents (fire e s) = transcriptEvents s @
     (case e of
        TranslationFulfilled k r \<Rightarrow>
          if k < length (inFlight s) \<and> ws_readyState s = OPEN
          then (case supportedLanguages_get (currentLanguage s) of
                  Inl e \<Rightarrow> []
                | Inr label \<Rightarrow> [Transcript (inFlight s ! k) r (stringifyField label)])
          else []
      | _ \<Rightarrow> [])"
  by (cases e)
     (simp_all add: onTranslated_transcriptEvents onError_def
        reconnect_def onTranslationRejected_def catchTranslation_def)

lemma set_removeAt: "set (removeAt k xs) \<subseteq> set xs"
  by (auto simp: removeAt_def dest: in_set_takeD in_set_dropD)

lemma received_transcript_iff:
  "(\<forall>m \<in> set (received s). \<forall>T r l. m = Transcript T r l \<longrightarrow> trim T \<noteq> []) \<longleftrightarrow>
   (\<forall>m \<in> set (transcriptEvents s). \<forall>T r l. m = Transcript T r l \<longrightarrow> trim T \<noteq> [])"
  by (auto simp: transcriptEvents_def isTranscriptEvent_def)

lemma setupDeepgram_inFlight: "inFlight (setupDeepgram s) = inFlight s"
  by (simp add: setupDeepgram_def Let_def prim_fields)

lemma setupMicrophone_inFlight: "inFlight (setupMicrophone s) = inFlight s"
  by (simp add: setupMicrophone_def Let_def prim_fields)

lemma countAudio_inFlight: "inFlight (countAudio n now s) = inFlight s"
  by (simp add: countAudio_def Let_def prim_fields)

lemma onClose_inFlight: "inFlight (onClose s) = inFlight s"
  by (simp add: onClose_def Let_def prim_fields split: option.splits)

lemma onTranscript_inFlight:
  "set (inFlight (onTranscript d s)) \<subseteq> set (inFlight s) \<union> {T. trim T \<noteq> []}"
  by (auto simp: onTranscript_def Let_def prim_fields split: dgdata.splits list.splits)

lemma funpow_onTranscript_inFlight:
  "set (inFlight ((onTranscript d ^^ k) s)) \<subseteq> set (inFlight s) \<union> {T. trim T \<noteq> []}"
proof (induction k)
  case 0
  then show ?case by simp
next
  case (Suc k)
  then show ?case using onTranscript_inFlight[of d "(onTranscript d ^^ k) s"] by auto
qed

lemma fire_inFlight:
  "set (inFlight (fire e s)) \<subseteq> set (inFlight s) \<union> {T. trim T \<noteq> []}"
proof (cases e)
  case (ClientMessage message now)
  then show ?thesis
    by (auto simp: onMessage_def JSON_parse_def uncaughtInMessage_def prim_fields andThen_def
          deepgram_send_def countAudio_inFlight Let_def
          split: sum.splits option.splits bool.splits prod.splits frame.splits)
next
  case (DeepgramTranscript c d)
  then show ?thesis using funpow_onTranscript_inFlight by simp
next
  case ClientClose
  then show ?thesis by (simp add: onClose_inFlight)
next
  case (DeepgramOpen c)
  then show ?thesis
    by (auto simp: onDeepgramOpen_def uncaughtException_def andThen_def ws_send_def
          deepgram_finish_def deepgram_addTranscriptListener_def setupMicrophone_inFlight
          prim_fields Let_def split: option.splits prod.splits)
next
  case (MicrophoneData m d now)
  then show ?thesis
    by (auto simp: onMicData_def uncaughtException_def andThen_def deepgram_send_def
          setupDeepgram_inFlight countAudio_inFlight
          prim_fields Let_def split: option.splits prod.splits sum.splits bool.splits)
next
  case (TranslationFulfilled k r)
  then show ?thesis using set_removeAt[of k "inFlight s"]
    by (auto simp: onTranslated_def catchTranslation_def ws_send_def prim_fields Let_def
          split: sum.splits)
next
  case (TranslationRejected k r)
  then show ?thesis using set_removeAt[of k "inFlight s"]
    by (auto simp: onTranslationRejected_def catchTranslation_def prim_fields)
qed (auto simp: onError_def onDeepgramError_def onDeepgramUnhandledError_def onDeepgramClose_def
       onMicError_def reconnect_def uncaughtException_def andThen_def ws_send_def
       setupDeepgram_inFlight prim_fields Let_def)

lemma fire_awaitedNotBlank: "awaitedNotBlank s \<Longrightarrow> awaitedNotBlank (fire e s)"
proof -
  assume a: "awaitedNotBlank s"
  then have 1: "\<forall>T \<in> set (inFlight (fire e s)). trim T \<noteq> []"
    using fire_inFlight[of e s] by (auto simp: awaitedNotBlank_def)
  from a have old: "\<forall>m \<in> set (transcriptEvents s). \<forall>T r l. m = Transcript T r l \<longrightarrow> trim T \<noteq> []"
    unfolding awaitedNotBlank_def using received_transcript_iff[of s] by blast
  from a have awaited: "k < length (inFlight s) \<Longrightarrow> trim (inFlight s ! k) \<noteq> []" for k
    by (simp add: awaitedNotBlank_def)
  have "transcriptEvents (fire e s) = transcriptEvents s \<or>
        (\<exists>k r label. k < length (inFlight s) \<and>
            transcriptEvents (fire e s) = transcriptEvents s @ [Transcript (inFlight s ! k) r label])"
    unfolding fire_transcriptEvents[of e s]
    by (simp split: event.splits sum.splits) blast
  then have "\<forall>m \<in> set (transcriptEvents (fire e s)). \<forall>T r l. m = Transcript T r l \<longrightarrow> trim T \<noteq> []"
  proof
    assume "transcriptEvents (fire e s) = transcriptEvents s"
    then show ?thesis using old by simp
  next
    assume "\<exists>k r label. k < length (inFlight s) \<and>
            transcriptEvents (fire e s) = transcriptEvents s @ [Transcript (inFlight s ! k) r label]"
    then obtain k r label where k: "k < length (inFlight s)"
      and ev: "transcriptEvents (fire e s) = transcriptEvents s @ [Transcript (inFlight s ! k) r label]"
      by blast
    show ?thesis unfolding ev using old awaited[OF k] by auto
  qed
  with 1 show ?thesis
    unfolding awaitedNotBlank_def using received_transcript_iff[of "fire e s"] by blast
qed

lemma run_awaitedNotBlank: "awaitedNotBlank s \<Longrightarrow> awaitedNotBlank (run es s)"
  by (induction es arbitrary: s) (simp_all add: fire_awaitedNotBlank)

text \<open>
  In a session of the translating server, whatever happens, the transcript of every
  \<open>transcript\<close> event the client is sent is not blank.
\<close>

lemma transcript_events_never_blank:
  assumes "Transcript T r l \<in> set (received (run es (onConnection throws)))"
  shows "T \<noteq> [] \<and> (\<exists>c \<in> set T. \<not> isWhiteSpace c)"
proof -
  have "awaitedNotBlank (onConnection throws)"
    by (simp add: awaitedNotBlank_def onConnection_def setupDeepgram_def Let_def prim_fields
          initial_def sendDebugToClient_def console_log_def)
  then have "awaitedNotBlank (run es (onConnection throws))"
    by (rule run_awaitedNotBlank)
  with assms have "trim T \<noteq> []"
    by (auto simp: awaitedNotBlank_def)
  then show ?thesis using trim_empty_iff[of T] by auto
qed

text \<open>
  The listener of the server without translation sends every transcript that is not the
  empty string, and drops the empty one.
\<close>

lemma onTranscript_relay_sends:
  "T \<noteq> [] \<Longrightarrow>
     onTranscript_relay (Results (T # alts)) r =
       Inr (sendToClient (js ''transcript'') T
              (r\<lparr>relay_log := relay_log r @ [DebugReceivedTranscript T]\<rparr>))"
  "onTranscript_relay (Results ([] # alts)) r =
     Inr (r\<lparr>relay_log := relay_log r @ [DebugReceivedEmptyTranscript]\<rparr>)"
  by (simp_all add: onTranscript_relay_def)

text \<open>
  C4. Claim: for a transcript of the upstream link that is empty or consists of white
  space only, no \<open>transcript\<close> event is sent to the client and the translator is not
  called.  The listener of the server without translation tests \<open>if (transcript)\<close> only:
  a transcript of one space, which \<open>trim\<close> makes empty, is sent to the client as a
  \<open>transcript\<close> event.
\<close>

theorem relay_forwards_whitespace_transcript:
  "trim (js '' '') = [] \<and>
   onTranscript_relay (Results [js '' ''])
     \<lparr>relay_readyState = OPEN, relay_received = [], relay_log = []\<rparr>
   = Inr \<lparr>relay_readyState = OPEN, relay_received = [(js ''transcript'', js '' '')],
          relay_log = [DebugReceivedTranscript (js '' '')]\<rparr>"
  by (simp add: onTranscript_relay_def sendToClient_def js_def isWhiteSpace_def trim_def)

section \<open>A translation that fails\<close>



section \<open>The upstream connection closes\<close>

text \<open>
  C6. Claim: when the upstream link closes, \<open>isDeepgramConnected\<close> becomes false, the
  client is sent the status \<open>Disconnected\<close>, and one reconnect attempt is scheduled after
  five seconds if and only if the client link is not closed.  The \<open>Close\<close> listener tests
  \<open>!isWebSocketClosed && ws.readyState === WebSocket.OPEN\<close>: while the client's socket is
  closing (its close frame has arrived, the \<open>'close'\<close> listener has not run) the link is not
  closed, and yet no timer is set and the status does not reach the client.
\<close>

theorem no_reconnect_while_client_is_closing:
  "let s = run [DeepgramOpen 0, ClientClosing] (onConnection False);
       s' = fire (DeepgramClose 0) s
   in ws_readyState s = CLOSING \<and> \<not> isWebSocketClosed s \<and> isDeepgramConnected s \<and>
      \<not> isDeepgramConnected s' \<and> timers s' = [] \<and> received s' = received s"
  by code_simp

lemma onDeepgramClose_while_open:
  assumes "c < length (connections s)" and "readyState (connections s ! c) \<noteq> CLOSED"
    and "\<not> isWebSocketClosed s" and "ws_readyState s = OPEN"
  shows "fire (DeepgramClose c) s =
           s\<lparr>connections := (connections s)[c := (connections s ! c)\<lparr>readyState := CLOSED\<rparr>],
             console := console s @ [LogDeepgramConnectionClosed],
             received := received s @ [Debug DeepgramConnectionClosed, Status (js ''Disconnected'')],
             isDeepgramConnected := False,
             timers := timers s @ [5000]\<rparr>"
  using assms
  by (simp add: onDeepgramClose_def uncaughtException_def andThen_def ws_send_def Let_def
        sendDebugToClient_def console_log_def updateConnection_def)

text \<open>
  C6, as the listener is written: \<open>isDeepgramConnected\<close> becomes false; the status (after a
  \<open>debug\<close> line) reaches the client when its socket is open; one timer of 5000 ms is set
  when \<open>isWebSocketClosed\<close> is false and the client's socket is open, and none otherwise.
  The timer is a reconnect attempt: when it runs out next, it sends a \<open>debug\<close> line and
  calls \<open>setupDeepgram\<close>, which creates a connection and makes it \<open>deepgramConnection\<close>.
\<close>

theorem upstream_close_schedules_one_reconnect:
  assumes "c < length (connections s)" and "readyState (connections s ! c) \<noteq> CLOSED"
  shows "let s' = fire (DeepgramClose c) s in
           \<not> isDeepgramConnected s' \<and>
           received s' = received s @
             (if ws_readyState s = OPEN
              then [Debug DeepgramConnectionClosed, Status (js ''Disconnected'')] else []) \<and>
           timers s' = timers s @
             (if \<not> isWebSocketClosed s \<and> ws_readyState s = OPEN then [5000] else []) \<and>
           (\<not> isWebSocketClosed s \<and> ws_readyState s = OPEN \<longrightarrow>
              fire (TimerFires (length (timers s))) s' =
                s'\<lparr>timers := timers s,
                   console := console s' @ [LogCreatingDeepgramConnection],
                   received := received s' @
                     [Debug AttemptingToReconnect, Debug CreatingDeepgramConnection],
                   connections := connections s' @ [newConnection],
                   deepgramConnection := Some (length (connections s))\<rparr>)"
proof -
  define s' where "s' = fire (DeepgramClose c) s"
  have 1: "\<not> isDeepgramConnected s' \<and>
           received s' = received s @
             (if ws_readyState s = OPEN
              then [Debug DeepgramConnectionClosed, Status (js ''Disconnected'')] else []) \<and>
           timers s' = timers s @
             (if \<not> isWebSocketClosed s \<and> ws_readyState s = OPEN then [5000] else [])"
    unfolding s'_def using assms
    by (simp add: onDeepgramClose_def uncaughtException_def andThen_def ws_send_def Let_def prim_fields
          sendDebugToClient_def console_log_def updateConnection_def)
  have 2: "fire (TimerFires (length (timers s))) s' =
                s'\<lparr>timers := timers s,
                   console := console s' @ [LogCreatingDeepgramConnection],
                   received := received s' @
                     [Debug AttemptingToReconnect, Debug CreatingDeepgramConnection],
                   connections := connections s' @ [newConnection],
                   deepgramConnection := Some (length (connections s))\<rparr>"
    if "\<not> isWebSocketClosed s" "ws_readyState s = OPEN"
    unfolding s'_def onDeepgramClose_while_open[OF assms that] using that
    by (simp add: reconnect_def setupDeepgram_def sendDebugToClient_def console_log_def
          removeAt_def Let_def)
  show ?thesis
    unfolding Let_def s'_def[symmetric] using 1 2 by blast
qed

theorem upstream_close_schedules_one_reconnect_witness:
  "let s = run [DeepgramOpen 0] (onConnection False);
       s' = fire (DeepgramClose 0) s;
       s'' = fire (TimerFires 0) s'
   in isDeepgramConnected s \<and> \<not> isDeepgramConnected s' \<and>
      received s' = received s @ [Debug DeepgramConnectionClosed, Status (js ''Disconnected'')] \<and>
      timers s = [] \<and> timers s' = [5000] \<and>
      timers s'' = [] \<and> connections s'' = connections s' @ [newConnection] \<and>
      deepgramConnection s'' = Some 1"
proof -
  define s where "s = run [DeepgramOpen 0] (onConnection False)"
  define s' where "s' = fire (DeepgramClose 0) s"
  have h1: "0 < length (connections s)" unfolding s_def by code_simp
  have h2: "readyState (connections s ! 0) \<noteq> CLOSED" unfolding s_def by code_simp
  have f: "ws_readyState s = OPEN" "\<not> isWebSocketClosed s" "timers s = []" "isDeepgramConnected s"
    "length (connections s) = 1"
    unfolding s_def by code_simp+
  note inst = upstream_close_schedules_one_reconnect [OF h1 h2, unfolded Let_def, folded s'_def]
  have A: "\<not> isDeepgramConnected s'"
    "received s' = received s @ [Debug DeepgramConnectionClosed, Status (js ''Disconnected'')]"
    "timers s' = [5000]"
    using inst f by (simp_all del: fire.simps)
  have B: "fire (TimerFires 0) s' =
             s'\<lparr>timers := timers s,
                console := console s' @ [LogCreatingDeepgramConnection],
                received := received s' @
                  [Debug AttemptingToReconnect, Debug CreatingDeepgramConnection],
                connections := connections s' @ [newConnection],
                deepgramConnection := Some (length (connections s))\<rparr>"
    using inst f(1,2,3) by (simp del: fire.simps)
  have C: "timers (fire (TimerFires 0) s') = []"
    "connections (fire (TimerFires 0) s') = connections s' @ [newConnection]"
    "deepgramConnection (fire (TimerFires 0) s') = Some 1"
    by (subst B, simp add: f)+
  show ?thesis
    unfolding Let_def s'_def[symmetric] s_def[symmetric]
    using f(3,4) A C by simp
qed

section \<open>After the client has gone\<close>

lemma onTranscript_not_open:
  "ws_readyState s \<noteq> OPEN \<Longrightarrow>
     received (onTranscript d s) = received s \<and> connections (onTranscript d s) = connections s \<and>
     isWebSocketClosed (onTranscript d s) = isWebSocketClosed s \<and>
     ws_readyState (onTranscript d s) = ws_readyState s \<and>
     isDeepgramConnected (onTranscript d s) = isDeepgramConnected s \<and>
     deepgramConnection (onTranscript d s) = deepgramConnection s"
  by (auto simp: onTranscript_def prim_fields sendDebugToClient_not_open Let_def
        split: dgdata.splits list.splits)

lemma funpow_onTranscript_not_open:
  "ws_readyState s \<noteq> OPEN \<Longrightarrow>
     received ((onTranscript d ^^ k) s) = received s \<and>
     connections ((onTranscript d ^^ k) s) = connections s \<and>
     isWebSocketClosed ((onTranscript d ^^ k) s) = isWebSocketClosed s \<and>
     ws_readyState ((onTranscript d ^^ k) s) = ws_readyState s \<and>
     isDeepgramConnected ((onTranscript d ^^ k) s) = isDeepgramConnected s \<and>
     deepgramConnection ((onTranscript d ^^ k) s) = deepgramConnection s"
  by (induction k) (simp_all add: onTranscript_not_open)

lemmas handler_defs =
  onMessage_def onClose_def onError_def onDeepgramOpen_def onDeepgramError_def
  onDeepgramUnhandledError_def onDeepgramClose_def onMicData_def onMicError_def reconnect_def
  onTranslated_def onTranslationRejected_def catchTranslation_def setupDeepgram_def
  setupMicrophone_def countAudio_def uncaughtException_def andThen_def ws_send_def
  deepgram_send_def deepgram_finish_def deepgram_addTranscriptListener_def connectedAndOpen_def
  JSON_parse_def

text \<open>
  Once \<open>isWebSocketClosed\<close> is set and the client's socket is closed, no event sends the
  client anything, creates a connection or sets \<open>isDeepgramConnected\<close>.
\<close>

lemma fire_after_close:
  assumes "isWebSocketClosed s" "ws_readyState s = CLOSED"
  shows "isWebSocketClosed (fire e s) \<and> ws_readyState (fire e s) = CLOSED \<and>
         received (fire e s) = received s \<and>
         length (connections (fire e s)) = length (connections s) \<and>
         deepgramConnection (fire e s) = deepgramConnection s \<and>
         (\<not> isDeepgramConnected s \<longrightarrow> \<not> isDeepgramConnected (fire e s))"
proof (cases e)
  case (DeepgramTranscript c d)
  then show ?thesis using assms funpow_onTranscript_not_open[where s=s and d=d] by simp
next
  case (DeepgramOpen c)
  then show ?thesis using assms
    by (auto simp: handler_defs prim_fields sendDebugToClient_not_open Let_def theConnection_def
          updateConnection_def split: option.splits)
qed (use assms in \<open>auto simp: handler_defs prim_fields sendDebugToClient_not_open Let_def
       theConnection_def split: option.splits sum.splits if_splits bool.splits\<close>)

lemma run_after_close:
  assumes "isWebSocketClosed s" "ws_readyState s = CLOSED"
  shows "isWebSocketClosed (run es s) \<and> ws_readyState (run es s) = CLOSED \<and>
         received (run es s) = received s \<and>
         length (connections (run es s)) = length (connections s) \<and>
         deepgramConnection (run es s) = deepgramConnection s \<and>
         (\<not> isDeepgramConnected s \<longrightarrow> \<not> isDeepgramConnected (run es s))"
  using assms
proof (induction es arbitrary: s)
  case Nil
  then show ?case by simp
next
  case (Cons e es)
  from fire_after_close[OF Cons.prems, of e] Cons.IH[of "fire e s"]
  show ?case by simp
qed

lemma timer_after_close:
  assumes "isWebSocketClosed s" "ws_readyState s = CLOSED" "k < length (timers s)"
  shows "fire (TimerFires k) s = s\<lparr>timers := removeAt k (timers s)\<rparr>"
  using assms by (simp add: reconnect_def setupDeepgram_def sendDebugToClient_not_open)

lemma onClose_fields:
  "isWebSocketClosed (onClose s)"
  "isReceivingAudio (onClose s) = False"
  "isDeepgramConnected (onClose s) = (isDeepgramConnected s \<and> deepgramConnection s = None)"
  "deepgramConnection (onClose s) = deepgramConnection s"
  "micInstance (onClose s) = micInstance s"
  "currentLanguage (onClose s) = currentLanguage s"
  "isMuted (onClose s) = isMuted s"
  "totalAudioBytesSent (onClose s) = totalAudioBytesSent s"
  "lastAudioSentTimestamp (onClose s) = lastAudioSentTimestamp s"
  "ws_readyState (onClose s) = ws_readyState s"
  "timers (onClose s) = timers s"
  "microphones (onClose s) =
     (case micInstance s of
        None \<Rightarrow> microphones s
      | Some m \<Rightarrow> (microphones s)[m := (microphones s ! m)\<lparr>stopCalls := Suc (stopCalls (microphones s ! m))\<rparr>])"
  "connections (onClose s) =
     (case deepgramConnection s of
        None \<Rightarrow> connections s
      | Some c \<Rightarrow> (connections s)[c := (connections s ! c)\<lparr>finishCalls := Suc (finishCalls (connections s ! c))\<rparr>])"
  by (simp_all add: onClose_def Let_def prim_fields split: option.splits)

lemma onClose_received:
  "ws_readyState s \<noteq> OPEN \<Longrightarrow> received (onClose s) = received s"
  by (simp add: onClose_def Let_def prim_fields sendDebugToClient_not_open split: option.splits)

text \<open>
  When the \<open>'close'\<close> listener of the client socket runs, it sets \<open>isWebSocketClosed\<close>; from
  then on, whatever happens, the client is sent nothing, no connection is created,
  \<open>deepgramConnection\<close> stays what it was and \<open>isDeepgramConnected\<close> stays false; a timer
  that fires only leaves the list of timers, and a translation that is fulfilled sends
  nothing.
\<close>

lemma close_listener_cancels:
  assumes "ws_readyState s \<noteq> CLOSED" and "\<not> ws_receiverStopped s"
  shows "let s0 = fire ClientClose s; s1 = run es s0 in
           isWebSocketClosed s0 \<and>
           received s1 = received s \<and>
           length (connections s1) = length (connections s) \<and>
           deepgramConnection s1 = deepgramConnection s \<and>
           (deepgramConnection s \<noteq> None \<longrightarrow> \<not> isDeepgramConnected s1) \<and>
           (k < length (timers s1) \<longrightarrow>
              fire (TimerFires k) s1 = s1\<lparr>timers := removeAt k (timers s1)\<rparr>) \<and>
           received (fire (TranslationFulfilled k result_text) s1) = received s"
proof -
  define s0 where "s0 = fire ClientClose s"
  define s1 where "s1 = run es s0"
  have s0: "s0 = onClose (s\<lparr>ws_readyState := CLOSED\<rparr>)"
    unfolding s0_def using assms by simp
  have closed0: "isWebSocketClosed s0" "ws_readyState s0 = CLOSED"
    by (simp_all add: s0 onClose_fields)
  have same0: "received s0 = received s" "length (connections s0) = length (connections s)"
    "deepgramConnection s0 = deepgramConnection s"
    "deepgramConnection s \<noteq> None \<longrightarrow> \<not> isDeepgramConnected s0"
    by (simp_all add: s0 onClose_fields onClose_received split: option.splits)
  note inv = run_after_close[OF closed0, of es, folded s1_def]
  have t: "fire (TimerFires k) s1 = s1\<lparr>timers := removeAt k (timers s1)\<rparr>"
    if "k < length (timers s1)"
    using inv that timer_after_close[of s1 k] by blast
  have f: "received (fire (TranslationFulfilled k result_text) s1) = received s1"
    using inv fire_after_close[of s1 "TranslationFulfilled k result_text"] by blast
  show ?thesis
    unfolding Let_def s0_def[symmetric] s1_def[symmetric]
    using inv same0 closed0(1) t f by simp
qed

text \<open>
  C7. Claim: after the client link has closed, a pending reconnect timer has no effect (no
  new upstream stream becomes active) and the result of a translation still in flight is
  not delivered.  Everything that keeps the session quiet hangs on \<open>isWebSocketClosed\<close>,
  which only the \<open>'close'\<close> listener sets.  After a frame that made the \<open>'message'\<close> listener
  throw, that listener never runs: the client's connection closes, the socket stays
  \<open>CLOSING\<close> and \<open>isWebSocketClosed\<close> stays false.  The timer that was pending then
  creates a second upstream connection; it opens, \<open>isDeepgramConnected\<close> becomes true and
  a second microphone is started, while the first one was never stopped.
\<close>

theorem reconnect_after_client_has_gone:
  "let s = run [DeepgramOpen 0, ClientMessage Malformed 1000, DeepgramClose 0, ClientClose]
             (onConnection False);
       s1 = run [TimerFires 0, DeepgramOpen 1] s
   in timers s = [5000] \<and> ws_readyState s = CLOSING \<and> \<not> isWebSocketClosed s \<and>
      length (connections s) = 1 \<and> openConnections s = [] \<and>
      length (connections s1) = 2 \<and> openConnections s1 = [1] \<and>
      deepgramConnection s1 = Some 1 \<and> isDeepgramConnected s1 \<and>
      map startCalls (microphones s1) = [1, 1] \<and> map stopCalls (microphones s1) = [0, 0] \<and>
      map finishCalls (connections s1) = [0, 0]"
  by code_simp

section \<open>The close handler, twice\<close>

text \<open>
  C8. Claim: two runs of the client-disconnect handler in succession throw no error and
  release no resource twice: the second run stops no microphone, finishes no upstream
  stream and leaves the state of the session unchanged.  The handler never clears
  \<open>micInstance\<close> and \<open>deepgramConnection\<close>: in a session whose upstream connection had
  opened, the second run calls \<open>stop\<close> and \<open>finish\<close> again.
\<close>

theorem second_close_releases_again:
  "let s = fire ClientClose (run [DeepgramOpen 0] (onConnection False))
   in onClose s \<noteq> s \<and>
      map stopCalls (microphones s) = [1] \<and> map stopCalls (microphones (onClose s)) = [2] \<and>
      map finishCalls (connections s) = [1] \<and> map finishCalls (connections (onClose s)) = [2]"
  by code_simp

text \<open>
  C8, as the handler is written: it has no statement that can throw; a second run leaves
  every variable of the session as the first run left it and schedules nothing, and it
  calls \<open>stop\<close> on the microphone and \<open>finish\<close> on the upstream connection once more
  whenever \<open>micInstance\<close> and \<open>deepgramConnection\<close> are set.
\<close>

theorem second_close_keeps_variables:
  "let s1 = onClose s; s2 = onClose s1 in
     isWebSocketClosed s1 \<and> isWebSocketClosed s2 \<and>
     isDeepgramConnected s2 = isDeepgramConnected s1 \<and>
     isReceivingAudio s2 = isReceivingAudio s1 \<and>
     deepgramConnection s2 = deepgramConnection s1 \<and>
     micInstance s2 = micInstance s1 \<and>
     currentLanguage s2 = currentLanguage s1 \<and>
     isMuted s2 = isMuted s1 \<and>
     totalAudioBytesSent s2 = totalAudioBytesSent s1 \<and>
     lastAudioSentTimestamp s2 = lastAudioSentTimestamp s1 \<and>
     timers s2 = timers s1 \<and>
     microphones s2 =
       (case micInstance s1 of
          None \<Rightarrow> microphones s1
        | Some m \<Rightarrow> microphones (updateMicrophone m (\<lambda>d. d\<lparr>stopCalls := Suc (stopCalls d)\<rparr>) s1)) \<and>
     connections s2 =
       (case deepgramConnection s1 of
          None \<Rightarrow> connections s1
        | Some c \<Rightarrow> connections (updateConnection c (\<lambda>d. d\<lparr>finishCalls := Suc (finishCalls d)\<rparr>) s1))"
  unfolding Let_def
  by (simp only: onClose_fields prim_fields) auto

section \<open>A frame that is not JSON\<close>

text \<open>
  \<open>JSON.parse\<close> is called outside any \<open>try\<close>: on a frame that is not JSON the handler
  throws before it has read or changed anything.  The exception reaches
  \<open>process.on('uncaughtException')\<close>, which writes it to the console, and the receiver of
  the socket is stopped.
\<close>

lemma onMessage_Malformed: "onMessage Malformed now s = Threw SyntaxError s"
  by (simp add: onMessage_def JSON_parse_def)

lemma fire_Malformed:
  "fire (ClientMessage Malformed now) s =
     (if ws_readyState s = OPEN \<and> \<not> ws_receiverStopped s
      then s\<lparr>ws_receiverStopped := True,
             console := console s @ [ErrUncaughtException SyntaxError]\<rparr>
      else s)"
  by (simp add: onMessage_Malformed uncaughtInMessage_def console_log_def)

text \<open>
  C9. Claim: on an inbound message that is not valid JSON the message handler does not
  throw an unhandled exception; the message is logged and ignored, the state of the
  session is unchanged and the client's connection stays open.  The handler throws a
  \<open>SyntaxError\<close> that nothing but \<open>process.on('uncaughtException')\<close> handles, and the
  session does not go on as before: a \<open>mute\<close> frame, which would set \<open>isMuted\<close>, is not
  handled after it, and when the client's connection closes the \<open>'close'\<close> listener does
  not run, so that \<open>isWebSocketClosed\<close> stays false, the microphone is not stopped and the
  upstream connection is not finished.
\<close>

theorem malformed_frame_ends_message_handling:
  "let s = run [DeepgramOpen 0] (onConnection False);
       s1 = fire (ClientMessage Malformed 1000) s;
       s2 = fire (ClientMessage muteMessage 2000) s1;
       s3 = fire ClientClose s2
   in onMessage Malformed 1000 s = Threw SyntaxError s \<and>
      console s1 = console s @ [ErrUncaughtException SyntaxError] \<and>
      ws_readyState s1 = OPEN \<and> ws_receiverStopped s1 \<and>
      isMuted (fire (ClientMessage muteMessage 2000) s) \<and> \<not> isMuted s2 \<and> s2 = s1 \<and>
      isWebSocketClosed (fire ClientClose s) \<and> \<not> isWebSocketClosed s3 \<and>
      map stopCalls (microphones (fire ClientClose s)) = [1] \<and>
      map stopCalls (microphones s3) = [0] \<and>
      map finishCalls (connections (fire ClientClose s)) = [1] \<and>
      map finishCalls (connections s3) = [0]"
  by code_simp

section \<open>The label of the language\<close>

lemma supportedLanguages_labels:
  "supportedLanguages_get (Some (JStr (js ''ja''))) = Inr (Label (js ''Japanese''))"
  "supportedLanguages_get (Some (JStr (js ''ko''))) = Inr (Label (js ''Korean''))"
  "supportedLanguages_get (Some (JStr (js ''ZH-HANT''))) = Inr (Label (js ''Chinese (Traditional)''))"
  "supportedLanguages_get (Some (JStr (js ''es''))) = Inr (Label (js ''Spanish''))"
  by code_simp+

text \<open>
  C10. Claim: the \<open>language\<close> of every \<open>transcript\<close> event is the label found for
  \<open>currentLanguage\<close> in \<open>supportedLanguages\<close> (\<open>ja\<close> Japanese, \<open>ko\<close> Korean, \<open>ZH-HANT\<close>
  Chinese (Traditional), \<open>es\<close> Spanish), and for every \<open>currentLanguage\<close> outside the
  table the lookup gives \<open>undefined\<close>, so that the event has no label.  The table is a
  plain object: for the key \<open>__proto__\<close>, which is not one of its four codes, the lookup
  gives \<open>Object.prototype\<close>.  When the client sets that language while a translation (into
  Japanese) is awaited, the event that is sent carries the language \<open>{}\<close>.
\<close>

theorem proto_language_is_not_undefined:
  "let s = run [DeepgramOpen 0,
                DeepgramTranscript 0 (Results [js ''hello'']),
                ClientMessage (setLanguageMessage (JStr (js ''__proto__''))) 1000,
                TranslationFulfilled 0 (js ''konnichiwa'')]
             (onConnection False)
   in js ''__proto__'' \<notin> set (map fst supportedLanguages) \<and>
      currentLanguage s = Some (JStr (js ''__proto__'')) \<and>
      supportedLanguages_get (currentLanguage s) = Inr PrototypeObject \<and>
      translateCalls s = [(js ''hello'', Some (JStr (js ''ja'')))] \<and>
      transcriptEvents s = [Transcript (js ''hello'') (js ''konnichiwa'') (Some (JObj []))]"
  by code_simp

text \<open>
  C10, as the lookup works: whatever happens in a session, a \<open>transcript\<close> event is sent
  only when an awaited translation is fulfilled while the client's socket is open and
  \<open>supportedLanguages[currentLanguage]\<close> does not throw, and its \<open>language\<close> is what
  \<open>JSON.stringify\<close> makes of that value at that moment.  The four codes give their
  labels.  A language that is an object throws a \<open>TypeError\<close> when it has a property
  \<open>toString\<close>, and gives \<open>undefined\<close> otherwise.  For a key outside the table the lookup
  gives \<open>undefined\<close> unless the key names a property of \<open>Object.prototype\<close>, and the event
  has no \<open>language\<close> unless the key is \<open>__proto__\<close>.
\<close>

theorem transcript_language_label:
  "transcriptEvents (fire e s) = transcriptEvents s @
     (case e of
        TranslationFulfilled k r \<Rightarrow>
          if k < length (inFlight s) \<and> ws_readyState s = OPEN
          then (case supportedLanguages_get (currentLanguage s) of
                  Inl err \<Rightarrow> []
                | Inr label \<Rightarrow> [Transcript (inFlight s ! k) r (stringifyField label)])
          else []
      | _ \<Rightarrow> []) \<and>
   supportedLanguages_get (Some (JStr (js ''ja''))) = Inr (Label (js ''Japanese'')) \<and>
   supportedLanguages_get (Some (JStr (js ''ko''))) = Inr (Label (js ''Korean'')) \<and>
   supportedLanguages_get (Some (JStr (js ''ZH-HANT''))) = Inr (Label (js ''Chinese (Traditional)'')) \<and>
   supportedLanguages_get (Some (JStr (js ''es''))) = Inr (Label (js ''Spanish'')) \<and>
   supportedLanguages_get (Some (JObj props)) =
     (if map_of props (js ''toString'') = None then Inr Undefined else Inl TypeError) \<and>
   (ToPropertyKey code = Inr key \<and> key \<notin> set (map fst supportedLanguages) \<longrightarrow>
      supportedLanguages_get code = Inr (supportedLanguages_at key) \<and>
      (key \<notin> set Object_prototype_functions \<and> key \<noteq> js ''__proto__''
         \<longrightarrow> supportedLanguages_at key = Undefined) \<and>
      (key \<noteq> js ''__proto__'' \<longrightarrow> stringifyField (supportedLanguages_at key) = None))"
proof -
  have a: "supportedLanguages_get (Some (JObj props)) =
             (if map_of props (js ''toString'') = None then Inr Undefined else Inl TypeError)"
  proof (cases "map_of props (js ''toString'') = None")
    case True
    have "supportedLanguages_at (js ''[object Object]'') = Undefined" by code_simp
    with True show ?thesis by (simp add: supportedLanguages_get_def ToPropertyKey_def)
  next
    case False
    then show ?thesis by (simp add: supportedLanguages_get_def ToPropertyKey_def)
  qed
  have b: "map_of supportedLanguages key = None"
    if "key \<notin> set (map fst supportedLanguages)"
    using that by (simp add: map_of_eq_None_iff)
  have c: "supportedLanguages_get code = Inr (supportedLanguages_at key)"
    if "ToPropertyKey code = Inr key"
    using that by (simp add: supportedLanguages_get_def)
  have d: "supportedLanguages_at key = Undefined"
    if "key \<notin> set (map fst supportedLanguages)"
       "key \<notin> set Object_prototype_functions" "key \<noteq> js ''__proto__''"
    using that b by (simp add: supportedLanguages_at_def)
  have e: "stringifyField (supportedLanguages_at key) = None"
    if "key \<notin> set (map fst supportedLanguages)" "key \<noteq> js ''__proto__''"
    using that b by (simp add: supportedLanguages_at_def stringifyField_def)
  show ?thesis using fire_transcriptEvents[of e s] a c d e supportedLanguages_labels by blast
qed

theorem transcript_language_label_witness:
  "let code = Some (JStr (js ''fr''));
       s = run [DeepgramOpen 0, DeepgramTranscript 0 (Results [js ''hello''])] (onConnection False)
   in ToPropertyKey code = Inr (js ''fr'') \<and>
      js ''fr'' \<notin> set (map fst supportedLanguages) \<and>
      js ''fr'' \<notin> set Object_prototype_functions \<and>
      js ''fr'' \<noteq> js ''__proto__'' \<and>
      supportedLanguages_get code = Inr Undefined \<and>
      stringifyField (supportedLanguages_at (js ''fr'')) = None \<and>
      transcriptEvents (fire (TranslationFulfilled 0 (js ''konnichiwa'')) s) =
        [Transcript (js ''hello'') (js ''konnichiwa'') (Some (JStr (js ''Japanese'')))]"
proof -
  define code where "code = Some (JStr (js ''fr''))"
  define s where "s = run [DeepgramOpen 0, DeepgramTranscript 0 (Results [js ''hello''])] (onConnection False)"
  have h: "ToPropertyKey code = Inr (js ''fr'')"
    "js ''fr'' \<notin> set (map fst supportedLanguages)"
    "js ''fr'' \<notin> set Object_prototype_functions"
    "js ''fr'' \<noteq> js ''__proto__''"
    unfolding code_def by code_simp+
  have f: "0 < length (inFlight s)" "ws_readyState s = OPEN" "inFlight s ! 0 = js ''hello''"
    "currentLanguage s = Some (JStr (js ''ja''))" "transcriptEvents s = []"
    unfolding s_def by code_simp+
  note inst = transcript_language_label
                [of "TranslationFulfilled 0 (js ''konnichiwa'')" s "[]" code "js ''fr''"]
  have c1: "supportedLanguages_get code = Inr (supportedLanguages_at (js ''fr''))"
    using inst h by blast
  have c2: "supportedLanguages_at (js ''fr'') = Undefined"
    using inst h by blast
  have c3: "stringifyField (supportedLanguages_at (js ''fr'')) = None"
    using inst h by blast
  have 1: "supportedLanguages_get code = Inr Undefined \<and>
           stringifyField (supportedLanguages_at (js ''fr'')) = None"
    using c1 c2 c3 by simp
  have l: "supportedLanguages_get (Some (JStr (js ''ja''))) = Inr (Label (js ''Japanese''))"
    using inst by blast
  have "transcriptEvents (fire (TranslationFulfilled 0 (js ''konnichiwa'')) s) =
          transcriptEvents s @
            (case supportedLanguages_get (currentLanguage s) of
               Inl err \<Rightarrow> []
             | Inr label \<Rightarrow> [Transcript (inFlight s ! 0) (js ''konnichiwa'') (stringifyField label)])"
    using inst f(1,2) by (simp del: fire.simps)
  then have 2: "transcriptEvents (fire (TranslationFulfilled 0 (js ''konnichiwa'')) s) =
        [Transcript (js ''hello'') (js ''konnichiwa'') (Some (JStr (js ''Japanese'')))]"
    by (simp add: f l stringifyField_def del: fire.simps)
  show ?thesis unfolding Let_def code_def[symmetric] s_def[symmetric] using h 1 2 by blast
qed

end
